theory Spec2Isabelle
  imports Main
begin

section \<open>Python strings\<close>

text \<open>
  A Python \<open>str\<close> is modelled as a \<open>string\<close> whose characters are the code points
  below 256.  \<open>py_isspace\<close> is \<open>str.isspace\<close> on that range; \<open>str.strip()\<close>,
  \<open>str.rstrip()\<close>, \<open>startswith\<close>, \<open>endswith\<close>, \<open>split\<close>, \<open>join\<close> and \<open>replace\<close>
  follow.
\<close>

definition py_isspace :: "char \<Rightarrow> bool" where
  "py_isspace c =
     (c \<in> set [CHR 0x09, CHR 0x0A, CHR 0x0B, CHR 0x0C, CHR 0x0D,
                CHR 0x1C, CHR 0x1D, CHR 0x1E, CHR 0x1F, CHR 0x20, CHR 0x85, CHR 0xA0])"

definition lstrip :: "(char \<Rightarrow> bool) \<Rightarrow> string \<Rightarrow> string" where
  "lstrip p s = dropWhile p s"

definition rstrip :: "(char \<Rightarrow> bool) \<Rightarrow> string \<Rightarrow> string" where
  "rstrip p s = rev (dropWhile p (rev s))"

definition strip :: "string \<Rightarrow> string" where
  "strip s = rstrip py_isspace (lstrip py_isspace s)"

definition startswith :: "string \<Rightarrow> string \<Rightarrow> bool" where
  "startswith p s = (take (length p) s = p)"

definition endswith :: "string \<Rightarrow> string \<Rightarrow> bool" where
  "endswith p s = (length p \<le> length s \<and> drop (length s - length p) s = p)"

fun split_on :: "char \<Rightarrow> string \<Rightarrow> string list" where
  "split_on sep [] = [[]]"
| "split_on sep (c # cs) =
     (if c = sep then [] # split_on sep cs
      else (case split_on sep cs of [] \<Rightarrow> [[c]] | w # ws \<Rightarrow> (c # w) # ws))"

fun join_with :: "string \<Rightarrow> string list \<Rightarrow> string" where
  "join_with sep [] = []"
| "join_with sep [x] = x"
| "join_with sep (x # y # ys) = x @ sep @ join_with sep (y # ys)"

text \<open>
  \<open>s.replace(old, new)\<close>: left to right, non-overlapping.  The source only passes
  non-empty literals as \<open>old\<close>; with an empty \<open>old\<close> this model returns \<open>s\<close>.
\<close>

function replace_str :: "string \<Rightarrow> string \<Rightarrow> string \<Rightarrow> string" where
  "replace_str old new [] = []"
| "replace_str old new (c # cs) =
     (if old \<noteq> [] \<and> startswith old (c # cs)
      then new @ replace_str old new (drop (length old) (c # cs))
      else c # replace_str old new cs)"
  by pat_completeness auto
termination
  by (relation "measure (\<lambda>(old, new, s). length s)") auto

text \<open>
  \<open>re.sub(r"[^...]+", rep, s)\<close> for a negated character class: every maximal run of
  characters outside the class \<open>keep\<close> becomes one \<open>rep\<close>.  The flag says whether the
  scan is inside such a run.
\<close>

fun re_sub_runs :: "(char \<Rightarrow> bool) \<Rightarrow> string \<Rightarrow> bool \<Rightarrow> string \<Rightarrow> string" where
  "re_sub_runs keep rep in_run [] = []"
| "re_sub_runs keep rep in_run (c # cs) =
     (if keep c then c # re_sub_runs keep rep False cs
      else (if in_run then [] else rep) @ re_sub_runs keep rep True cs)"

definition ascii_upper :: string where
  "ascii_upper = ''ABCDEFGHIJKLMNOPQRSTUVWXYZ''"

definition ascii_lower :: string where
  "ascii_lower = ''abcdefghijklmnopqrstuvwxyz''"

definition ascii_digits :: string where
  "ascii_digits = ''0123456789''"

text \<open>
  \<open>str.lower()\<close> on the ASCII letters.  Its only use is followed by the substitution
  of every character outside \<open>[a-z0-9]\<close>, which hides what it does to any other character.
\<close>

definition py_lower :: "string \<Rightarrow> string" where
  "py_lower s =
     map (\<lambda>c. case map_of (zip ascii_upper ascii_lower) c of None \<Rightarrow> c | Some l \<Rightarrow> l) s"

text \<open>\<open>str(n)\<close> for an integer.\<close>

fun str_nat :: "nat \<Rightarrow> string" where
  "str_nat n =
     (if n < 10 then [ascii_digits ! n] else str_nat (n div 10) @ [ascii_digits ! (n mod 10)])"

declare str_nat.simps [simp del]

definition str_int :: "int \<Rightarrow> string" where
  "str_int i = (if i < 0 then ''-'' @ str_nat (nat (- i)) else str_nat (nat i))"

section \<open>Errors\<close>

datatype error = KeyError | ParseError | RecursionError | ValueError

text \<open>
  \<open>int(s)\<close> in base 10: surrounding whitespace is dropped, one sign is allowed, and the
  digits may be grouped by single underscores.  Anything else raises \<open>ValueError\<close>.
  The whitespace \<open>int\<close> drops is narrower than that of \<open>str.strip\<close>: the characters
  \<open>0x1C\<close> to \<open>0x1F\<close> are not part of it.  A literal of more digits than
  \<open>int_max_str_digits\<close> is refused as well; the bound is the interpreter's default
  (\<open>sys.get_int_max_str_digits()\<close>).
\<close>

definition int_isspace :: "char \<Rightarrow> bool" where
  "int_isspace c =
     (c \<in> set [CHR 0x09, CHR 0x0A, CHR 0x0B, CHR 0x0C, CHR 0x0D, CHR 0x20, CHR 0x85, CHR 0xA0])"

definition int_max_str_digits :: nat where
  "int_max_str_digits = 4300"

fun digit_groups_ok :: "string \<Rightarrow> bool" where
  "digit_groups_ok [] = False"
| "digit_groups_ok [c] = (c \<in> set ascii_digits)"
| "digit_groups_ok (c # d # cs) =
     (c \<in> set ascii_digits
      \<and> (if d = CHR ''_'' then digit_groups_ok cs else digit_groups_ok (d # cs)))"

definition digit_value :: "char \<Rightarrow> nat" where
  "digit_value c = (case map_of (zip ascii_digits [0 ..< 10]) c of None \<Rightarrow> 0 | Some d \<Rightarrow> d)"

definition digits_value :: "string \<Rightarrow> nat" where
  "digits_value ds = foldl (\<lambda>acc c. 10 * acc + digit_value c) 0 ds"

definition py_int :: "string \<Rightarrow> error + int" where
  "py_int s =
     (let t = rstrip int_isspace (lstrip int_isspace s);
          neg = startswith ''-'' t \<and> t \<noteq> [];
          body = (if t \<noteq> [] \<and> (hd t = CHR ''-'' \<or> hd t = CHR ''+'') then tl t else t);
          digits = filter (\<lambda>c. c \<noteq> CHR ''_'') body
      in if digit_groups_ok body \<and> length digits \<le> int_max_str_digits
         then (let v = int (digits_value digits) in Inr (if neg then - v else v))
         else Inl ValueError)"

section \<open>posixpath\<close>

definition initial_slashes :: "string \<Rightarrow> nat" where
  "initial_slashes path =
     (if startswith ''/'' path
      then (if startswith ''//'' path \<and> \<not> startswith ''///'' path then 2 else 1)
      else 0)"

text \<open>The loop of \<open>posixpath.normpath\<close> over the components; \<open>new_comps\<close> is its stack.\<close>

fun norm_comps :: "nat \<Rightarrow> string list \<Rightarrow> string list \<Rightarrow> string list" where
  "norm_comps ini new_comps [] = new_comps"
| "norm_comps ini new_comps (c # comps) =
     (if c = '''' \<or> c = ''.'' then norm_comps ini new_comps comps
      else if c \<noteq> ''..'' \<or> (ini = 0 \<and> new_comps = [])
              \<or> (new_comps \<noteq> [] \<and> last new_comps = ''..'')
        then norm_comps ini (new_comps @ [c]) comps
      else if new_comps \<noteq> [] then norm_comps ini (butlast new_comps) comps
      else norm_comps ini new_comps comps)"

definition normpath :: "string \<Rightarrow> string" where
  "normpath path =
     (if path = '''' then ''.''
      else let ini = initial_slashes path;
               comps = norm_comps ini [] (split_on CHR ''/'' path);
               joined = join_with ''/'' comps;
               p = (if ini \<noteq> 0 then replicate ini CHR ''/'' @ joined else joined)
           in if p = '''' then ''.'' else p)"

text \<open>\<open>posixpath.join\<close> of two paths (\<open>os.path.join\<close> on the platform of the source).\<close>

definition posix_join :: "string \<Rightarrow> string \<Rightarrow> string" where
  "posix_join a b =
     (if startswith ''/'' b then b
      else if a = '''' \<or> endswith ''/'' a then a @ b
      else a @ ''/'' @ b)"

definition dirname :: "string \<Rightarrow> string" where
  "dirname p =
     (let head = rev (dropWhile (\<lambda>c. c \<noteq> CHR ''/'') (rev p))
      in if head \<noteq> '''' \<and> head \<noteq> replicate (length head) CHR ''/''
         then rstrip (\<lambda>c. c = CHR ''/'') head else head)"

definition basename :: "string \<Rightarrow> string" where
  "basename p = rev (takeWhile (\<lambda>c. c \<noteq> CHR ''/'') (rev p))"

text \<open>
  The second component of \<open>os.path.splitext\<close>: the last dot of the last path component
  starts the extension, unless only dots precede it there.
\<close>

definition splitext_ext :: "string \<Rightarrow> string" where
  "splitext_ext p =
     (let name = basename p
      in if CHR ''.'' \<in> set name
         then (let ext_rev = takeWhile (\<lambda>c. c \<noteq> CHR ''.'') (rev name);
                   stem = rev (drop (length ext_rev + 1) (rev name))
               in if \<exists>c \<in> set stem. c \<noteq> CHR ''.'' then CHR ''.'' # rev ext_rev else '''')
         else '''')"

definition abspath :: "string \<Rightarrow> string \<Rightarrow> string" where
  "abspath cwd p = normpath (posix_join cwd p)"

fun commonprefix :: "string list \<Rightarrow> string list \<Rightarrow> string list" where
  "commonprefix (x # xs) (y # ys) = (if x = y then x # commonprefix xs ys else [])"
| "commonprefix xs ys = []"

text \<open>
  \<open>os.path.relpath(path, start)\<close> for a non-empty \<open>path\<close>; \<open>cwd\<close> is the process's
  working directory, which \<open>abspath\<close> reads.
\<close>

definition relpath :: "string \<Rightarrow> string \<Rightarrow> string \<Rightarrow> string" where
  "relpath cwd path start =
     (let start_list = filter (\<lambda>x. x \<noteq> '''') (split_on CHR ''/'' (abspath cwd start));
          path_list = filter (\<lambda>x. x \<noteq> '''') (split_on CHR ''/'' (abspath cwd path));
          i = length (commonprefix start_list path_list);
          rel_list = replicate (length start_list - i) ''..'' @ drop i path_list
      in if rel_list = [] then ''.'' else join_with ''/'' rel_list)"

text \<open>
  \<open>normalize_rel_target\<close>: the \<open>while joined.startswith("./")\<close> loop drops two
  characters per round.
\<close>

fun strip_dot_slash :: "string \<Rightarrow> string" where
  "strip_dot_slash (a # b # rest) =
     (if a = CHR ''.'' \<and> b = CHR ''/'' then strip_dot_slash rest else a # b # rest)"
| "strip_dot_slash joined = joined"

definition normalize_rel_target :: "string \<Rightarrow> string \<Rightarrow> string" where
  "normalize_rel_target base_dir_in_zip target =
     strip_dot_slash (normpath (posix_join base_dir_in_zip target))"

section \<open>XML elements and the archive\<close>

text \<open>
  An \<open>ElementTree\<close> element: tag, attributes, text (\<open>None\<close> when the element has no
  text) and children in document order.  A tag or attribute name in a namespace is written
  with the prefix that \<open>NAMESPACES\<close> gives it, as the source's paths do (\<open>xdr:pic\<close>,
  \<open>r:embed\<close>).
\<close>

datatype elem =
  Elem (elem_tag: string) (elem_attrib: "(string \<times> string) list")
       (elem_text: "string option") (elem_children: "elem list")

definition attrib_get :: "elem \<Rightarrow> string \<Rightarrow> string option" where
  "attrib_get e k = map_of (elem_attrib e) k"

definition attrib_get_or :: "elem \<Rightarrow> string \<Rightarrow> string \<Rightarrow> string" where
  "attrib_get_or e k d = (case attrib_get e k of None \<Rightarrow> d | Some v \<Rightarrow> v)"

text \<open>\<open>e.findall("p:tag")\<close> and \<open>e.find("p:tag")\<close>: direct children.\<close>

definition findall :: "string \<Rightarrow> elem \<Rightarrow> elem list" where
  "findall t e = filter (\<lambda>c. elem_tag c = t) (elem_children e)"

definition find_elem :: "string \<Rightarrow> elem \<Rightarrow> elem option" where
  "find_elem t e = (case findall t e of [] \<Rightarrow> None | c # _ \<Rightarrow> Some c)"

text \<open>\<open>e.findall(".//p:tag")\<close> and \<open>e.find(".//p:tag")\<close>: all descendants, document order.\<close>

fun descendants :: "elem \<Rightarrow> elem list" where
  "descendants (Elem t a x cs) = concat (map (\<lambda>c. c # descendants c) cs)"

definition findall_desc :: "string \<Rightarrow> elem \<Rightarrow> elem list" where
  "findall_desc t e = filter (\<lambda>c. elem_tag c = t) (descendants e)"

definition find_desc :: "string \<Rightarrow> elem \<Rightarrow> elem option" where
  "find_desc t e = (case findall_desc t e of [] \<Rightarrow> None | c # _ \<Rightarrow> Some c)"

text \<open>
  A part of the archive: its bytes, and what \<open>ET.fromstring\<close> makes of them (\<open>None\<close>
  when it raises \<open>ParseError\<close>).  The archive maps the names of \<open>namelist()\<close> to parts.
\<close>

datatype part = Part (part_data: string) (part_xml: "elem option")

type_synonym zip = "string \<rightharpoonup> part"

definition load_xml :: "zip \<Rightarrow> string \<Rightarrow> error + elem" where
  "load_xml zipf path =
     (case zipf path of
        None \<Rightarrow> Inl KeyError
      | Some p \<Rightarrow> (case part_xml p of None \<Rightarrow> Inl ParseError | Some root \<Rightarrow> Inr root))"

definition read_text_nodes :: "elem \<Rightarrow> string list" where
  "read_text_nodes e =
     concat (map (\<lambda>t_node. case elem_text t_node of None \<Rightarrow> [] | Some t \<Rightarrow> [t])
                 (findall_desc ''a:t'' e))"

text \<open>
  The expression \<open>" ".join(t.strip() for t in texts if t is not None).strip()\<close> of
  \<open>extract_images_and_shapes\<close> and \<open>build_smartart_hierarchy\<close>.
\<close>

definition joined_text :: "string list \<Rightarrow> string" where
  "joined_text texts = strip (join_with '' '' (map strip texts))"

section \<open>Relationships\<close>

text \<open>A Python \<open>dict\<close>: keys in insertion order, an assignment to a present key keeps its place.\<close>

type_synonym ('k, 'v) dict = "('k \<times> 'v) list"

definition dict_get :: "('k, 'v) dict \<Rightarrow> 'k \<Rightarrow> 'v option" where
  "dict_get d k = map_of d k"

definition dict_set :: "('k, 'v) dict \<Rightarrow> 'k \<Rightarrow> 'v \<Rightarrow> ('k, 'v) dict" where
  "dict_set d k v =
     (if k \<in> set (map fst d) then map (\<lambda>(k', v'). if k' = k then (k', v) else (k', v')) d
      else d @ [(k, v)])"

record relationship =
  rel_Type :: string
  rel_Target :: string

type_synonym rels = "(string, relationship) dict"

text \<open>The loop over \<open>.//pr:Relationship\<close>; \<open>rel.attrib["Id"]\<close> raises \<open>KeyError\<close>.\<close>

fun collect_rels :: "elem list \<Rightarrow> rels \<Rightarrow> error + rels" where
  "collect_rels [] rels = Inr rels"
| "collect_rels (rel # rest) rels =
     (case attrib_get rel ''Id'' of
        None \<Rightarrow> Inl KeyError
      | Some rid \<Rightarrow>
          collect_rels rest
            (dict_set rels rid
               \<lparr>rel_Type = attrib_get_or rel ''Type'' '''',
                rel_Target = attrib_get_or rel ''Target'' ''''\<rparr>))"

definition read_rels_at :: "zip \<Rightarrow> string \<Rightarrow> error + rels" where
  "read_rels_at zipf rels_path =
     (if rels_path \<in> dom zipf
      then (case load_xml zipf rels_path of
              Inl e \<Rightarrow> Inl e
            | Inr root \<Rightarrow> collect_rels (findall_desc ''pr:Relationship'' root) [])
      else Inr [])"

definition read_sheet_relationships :: "zip \<Rightarrow> string \<Rightarrow> error + rels" where
  "read_sheet_relationships zipf sheet_path =
     (let rels_dir = replace_str ''xl/worksheets'' ''xl/worksheets/_rels'' (dirname sheet_path);
          rels_filename = basename sheet_path @ ''.rels'';
          rels_path = posix_join rels_dir rels_filename
      in read_rels_at zipf rels_path)"

definition read_rels :: "zip \<Rightarrow> string \<Rightarrow> error + rels" where
  "read_rels zipf part_path =
     (let base_dir = dirname part_path;
          rels_dir = posix_join base_dir ''_rels'';
          rels_path = posix_join rels_dir (basename part_path @ ''.rels'')
      in read_rels_at zipf rels_path)"

section \<open>Workbook sheets\<close>

fun worksheet_targets :: "elem list \<Rightarrow> (string, string) dict \<Rightarrow> error + (string, string) dict" where
  "worksheet_targets [] rid_to_target = Inr rid_to_target"
| "worksheet_targets (rel # rest) rid_to_target =
     (if endswith ''/worksheet'' (attrib_get_or rel ''Type'' '''')
      then (let target_path = normalize_rel_target ''xl'' (attrib_get_or rel ''Target'' '''')
            in case attrib_get rel ''Id'' of
                 None \<Rightarrow> Inl KeyError
               | Some rid \<Rightarrow> worksheet_targets rest (dict_set rid_to_target rid target_path))
      else worksheet_targets rest rid_to_target)"

definition sheet_of :: "(string, string) dict \<Rightarrow> elem \<Rightarrow> (string \<times> string) list" where
  "sheet_of rid_to_target sheet =
     (let name = attrib_get_or sheet ''name'' ''Sheet''
      in case attrib_get sheet ''r:id'' of
           None \<Rightarrow> []
         | Some rid \<Rightarrow>
             (if rid \<noteq> ''''
              then (case dict_get rid_to_target rid of
                      None \<Rightarrow> []
                    | Some target \<Rightarrow> [(name, normpath target)])
              else []))"

definition parse_workbook_sheets :: "zip \<Rightarrow> error + (string \<times> string) list" where
  "parse_workbook_sheets zipf =
     (case load_xml zipf ''xl/workbook.xml'' of
        Inl e \<Rightarrow> Inl e
      | Inr workbook_root \<Rightarrow>
          (case load_xml zipf ''xl/_rels/workbook.xml.rels'' of
             Inl e \<Rightarrow> Inl e
           | Inr rels_root \<Rightarrow>
               (case worksheet_targets (findall_desc ''pr:Relationship'' rels_root) [] of
                  Inl e \<Rightarrow> Inl e
                | Inr rid_to_target \<Rightarrow>
                    Inr (concat (map (sheet_of rid_to_target)
                                     (findall_desc ''s:sheet'' workbook_root))))))"

section \<open>Drawing anchors\<close>

record Anchor =
  col :: int
  colOff :: int
  row :: int
  rowOff :: int

text \<open>\<open>read_child\<close>: the \<open>try\<close> around \<open>int(child.text)\<close> turns every failure into 0.\<close>

definition read_child :: "elem \<Rightarrow> string \<Rightarrow> int" where
  "read_child from_elem name =
     (case find_elem (''xdr:'' @ name) from_elem of
        None \<Rightarrow> 0
      | Some child \<Rightarrow>
          (case elem_text child of
             None \<Rightarrow> 0
           | Some t \<Rightarrow> (case py_int t of Inl e \<Rightarrow> 0 | Inr n \<Rightarrow> n)))"

definition read_pos :: "elem \<Rightarrow> Anchor" where
  "read_pos from_elem =
     \<lparr>col = read_child from_elem ''col'',
      colOff = read_child from_elem ''colOff'',
      row = read_child from_elem ''row'',
      rowOff = read_child from_elem ''rowOff''\<rparr>"

definition extract_anchor :: "elem \<Rightarrow> Anchor" where
  "extract_anchor anchor_elem =
     (case find_elem ''xdr:from'' anchor_elem of
        Some from_pos \<Rightarrow> read_pos from_pos
      | None \<Rightarrow> \<lparr>col = 0, colOff = 0, row = 0, rowOff = 0\<rparr>)"

record ImageInfo =
  sheet_name :: string
  image_filename :: string
  original_part :: string
  anchor :: Anchor

record ShapeText =
  shape_sheet_name :: string
  shape_text :: string
  shape_anchor :: Anchor

type_synonym smartart_ref = "Anchor \<times> string \<times> string"

text \<open>The output files: path to bytes.\<close>

type_synonym fs = "string \<rightharpoonup> string"

text \<open>What the loop over the anchors of one drawing carries.\<close>

record extract_state =
  files :: fs
  image_counter :: nat
  images :: "ImageInfo list"
  shapes :: "ShapeText list"
  smartart_refs :: "smartart_ref list"

definition safe_sheet :: "string \<Rightarrow> string" where
  "safe_sheet sheet =
     re_sub_runs (\<lambda>c. c \<in> set (ascii_upper @ ascii_lower @ ascii_digits @ ''_-'')) ''_'' False sheet"

definition save_image ::
  "string \<Rightarrow> string \<Rightarrow> string \<Rightarrow> Anchor \<Rightarrow> string \<Rightarrow> part \<Rightarrow> extract_state \<Rightarrow> extract_state" where
  "save_image cwd output_images_dir sheet anchor_pos part_in_zip src st =
     (let counter = image_counter st + 1;
          ext = (if splitext_ext part_in_zip \<noteq> '''' then splitext_ext part_in_zip else ''.bin'');
          out_name = safe_sheet sheet @ ''_img_'' @ str_nat counter @ ext;
          out_path = posix_join output_images_dir out_name
      in st\<lparr>files := (files st)(out_path \<mapsto> part_data src),
             image_counter := counter,
             images := images st @
               [\<lparr>sheet_name = sheet,
                 image_filename = relpath cwd out_path (dirname output_images_dir),
                 original_part = part_in_zip,
                 anchor = anchor_pos\<rparr>]\<rparr>)"

text \<open>The loop \<open>for key in ("lo", "qs", "cs")\<close>.\<close>

fun style_refs :: "rels \<Rightarrow> string \<Rightarrow> Anchor \<Rightarrow> elem \<Rightarrow> string list \<Rightarrow> smartart_ref list \<Rightarrow> smartart_ref list" where
  "style_refs rels base_dir_in_zip anchor_pos rel_ids [] refs = refs"
| "style_refs rels base_dir_in_zip anchor_pos rel_ids (key # keys) refs =
     style_refs rels base_dir_in_zip anchor_pos rel_ids keys
       (case attrib_get rel_ids (''r:'' @ key) of
          None \<Rightarrow> refs
        | Some rid \<Rightarrow>
            (if rid \<noteq> ''''
             then (case dict_get rels rid of
                     None \<Rightarrow> refs
                   | Some rel \<Rightarrow>
                       refs @ [(anchor_pos, rid, normalize_rel_target base_dir_in_zip (rel_Target rel))])
             else refs))"

text \<open>The body of the loop over the anchors: picture, else shape, else graphic frame.\<close>

definition anchor_step ::
  "zip \<Rightarrow> rels \<Rightarrow> string \<Rightarrow> string \<Rightarrow> string \<Rightarrow> string \<Rightarrow> extract_state \<Rightarrow> elem \<Rightarrow> extract_state" where
  "anchor_step zipf rels base_dir_in_zip cwd output_images_dir sheet st anchor_elem =
     (let anchor_pos = extract_anchor anchor_elem
      in case find_elem ''xdr:pic'' anchor_elem of
           Some pic \<Rightarrow>
             (case find_desc ''a:blip'' pic of
                None \<Rightarrow> st
              | Some blip \<Rightarrow>
                  (case attrib_get blip ''r:embed'' of
                     None \<Rightarrow> st
                   | Some rid \<Rightarrow>
                       (if rid \<noteq> ''''
                        then (case dict_get rels rid of
                                None \<Rightarrow> st
                              | Some rel \<Rightarrow>
                                  (let part_in_zip =
                                         normalize_rel_target base_dir_in_zip (rel_Target rel)
                                   in case zipf part_in_zip of
                                        None \<Rightarrow> st
                                      | Some src \<Rightarrow>
                                          save_image cwd output_images_dir sheet anchor_pos
                                            part_in_zip src st))
                        else st)))
         | None \<Rightarrow>
             (case find_elem ''xdr:sp'' anchor_elem of
                Some sp \<Rightarrow>
                  (case find_elem ''xdr:txBody'' sp of
                     None \<Rightarrow> st
                   | Some tx_body \<Rightarrow>
                       (let text_content = joined_text (read_text_nodes tx_body)
                        in if text_content \<noteq> ''''
                           then st\<lparr>shapes := shapes st @
                                  [\<lparr>shape_sheet_name = sheet, shape_text = text_content,
                                    shape_anchor = anchor_pos\<rparr>]\<rparr>
                           else st))
              | None \<Rightarrow>
                  (case find_elem ''xdr:graphicFrame'' anchor_elem of
                     None \<Rightarrow> st
                   | Some gframe \<Rightarrow>
                       (case find_desc ''a:graphicData'' gframe of
                          None \<Rightarrow> st
                        | Some gdata \<Rightarrow>
                            (if endswith ''/diagram'' (attrib_get_or gdata ''uri'' '''')
                             then (case find_elem ''dgm:relIds'' gdata of
                                     None \<Rightarrow> st
                                   | Some rel_ids \<Rightarrow>
                                       (let refs_dm =
                                              (case attrib_get rel_ids ''r:dm'' of
                                                 None \<Rightarrow> smartart_refs st
                                               | Some dm_rid \<Rightarrow>
                                                   (if dm_rid \<noteq> ''''
                                                    then (case dict_get rels dm_rid of
                                                            None \<Rightarrow> smartart_refs st
                                                          | Some rel \<Rightarrow>
                                                              smartart_refs st @
                                                                [(anchor_pos, dm_rid,
                                                                  normalize_rel_target base_dir_in_zip
                                                                    (rel_Target rel))])
                                                    else smartart_refs st))
                                        in st\<lparr>smartart_refs :=
                                                style_refs rels base_dir_in_zip anchor_pos rel_ids
                                                  [''lo'', ''qs'', ''cs''] refs_dm\<rparr>))
                             else st)))))"

definition iter_anchors :: "elem \<Rightarrow> elem list" where
  "iter_anchors drawing_root =
     concat (map (\<lambda>tag. findall (''xdr:'' @ tag) drawing_root) [''twoCellAnchor'', ''oneCellAnchor''])"

text \<open>
  \<open>extract_images_and_shapes\<close> returns the files with the images written, and the three
  lists.  It raises only before its loop, from \<open>load_xml\<close> or \<open>read_rels\<close>.
\<close>

definition extract_images_and_shapes ::
  "zip \<Rightarrow> string \<Rightarrow> string \<Rightarrow> string \<Rightarrow> string \<Rightarrow> fs
     \<Rightarrow> error + (fs \<times> ImageInfo list \<times> ShapeText list \<times> smartart_ref list)" where
  "extract_images_and_shapes zipf drawing_path cwd output_images_dir sheet fs0 =
     (case load_xml zipf drawing_path of
        Inl e \<Rightarrow> Inl e
      | Inr drawing_root \<Rightarrow>
          (case read_rels zipf drawing_path of
             Inl e \<Rightarrow> Inl e
           | Inr rels \<Rightarrow>
               (let base_dir_in_zip = dirname drawing_path;
                    st = foldl (anchor_step zipf rels base_dir_in_zip cwd output_images_dir sheet)
                           \<lparr>files = fs0, image_counter = 0, images = [], shapes = [],
                            smartart_refs = []\<rparr>
                           (iter_anchors drawing_root)
                in Inr (files st, images st, shapes st, smartart_refs st))))"

section \<open>SmartArt hierarchy\<close>

datatype SmartArtNode =
  SmartArtNode (node_id: string) (node_text: string) (node_children: "SmartArtNode list")

definition point_text :: "elem \<Rightarrow> string" where
  "point_text pt =
     (let text_value = joined_text (read_text_nodes pt)
      in if text_value = ''''
         then (case find_elem ''dgm:prSet'' pt of
                 None \<Rightarrow> text_value
               | Some pr \<Rightarrow>
                   (case attrib_get pr ''name'' of
                      None \<Rightarrow> text_value
                    | Some name_attr \<Rightarrow> if name_attr \<noteq> '''' then name_attr else text_value))
         else text_value)"

text \<open>The loop over \<open>.//dgm:pt\<close> that fills \<open>id_to_text\<close>.\<close>

fun collect_points :: "elem list \<Rightarrow> (string, string) dict \<Rightarrow> (string, string) dict" where
  "collect_points [] id_to_text = id_to_text"
| "collect_points (pt # pts) id_to_text =
     collect_points pts
       (let model_id = attrib_get_or pt ''modelId'' ''''
        in if model_id \<noteq> '''' then dict_set id_to_text model_id (point_text pt) else id_to_text)"

text \<open>
  The loop over \<open>.//dgm:cxn\<close>.  \<open>children_map\<close> and \<open>indegree\<close> are
  \<open>defaultdict\<close>s, read with \<open>.get\<close> and the same default: functions with the value
  \<open>[]\<close> and \<open>0\<close> at every key never written.
\<close>

fun collect_cxns ::
  "elem list \<Rightarrow> (string \<Rightarrow> string list) \<times> (string \<Rightarrow> nat) \<Rightarrow> (string \<Rightarrow> string list) \<times> (string \<Rightarrow> nat)" where
  "collect_cxns [] maps = maps"
| "collect_cxns (cxn # cxns) (children_map, indegree) =
     collect_cxns cxns
       (case attrib_get cxn ''srcId'' of
          None \<Rightarrow> (children_map, indegree)
        | Some src \<Rightarrow>
            (case attrib_get cxn ''destId'' of
               None \<Rightarrow> (children_map, indegree)
             | Some dst \<Rightarrow>
                 (if src \<noteq> '''' \<and> dst \<noteq> ''''
                  then (children_map(src := children_map src @ [dst]),
                        indegree(dst := indegree dst + 1))
                  else (children_map, indegree))))"

text \<open>A list comprehension over calls that may raise: the first exception leaves it.\<close>

fun all_ok :: "(error + 'a) list \<Rightarrow> error + 'a list" where
  "all_ok [] = Inr []"
| "all_ok (r # rs) =
     (case r of
        Inl e \<Rightarrow> Inl e
      | Inr x \<Rightarrow> (case all_ok rs of Inl e \<Rightarrow> Inl e | Inr xs \<Rightarrow> Inr (x # xs)))"

text \<open>
  \<open>build_node\<close> calls itself for every child, with no check for a node seen before.
  The interpreter counts the frames of the calls in progress and raises
  \<open>RecursionError\<close> at a call that would pass its recursion limit.  What a call costs
  depends on the interpreter, so the costs are parameters: a list comprehension enters
  \<open>comp_frames\<close> frames around its body (one where a comprehension is a function of its
  own, none where it is inlined), a call of a built-in method such as \<open>dict.get\<close> enters
  \<open>call_frames\<close> frames, and the construction of a \<open>SmartArtNode\<close> enters
  \<open>ctor_frames\<close> frames (the call of the class and its generated \<open>__init__\<close>).
\<close>

record frame_costs =
  comp_frames :: nat
  call_frames :: nat
  ctor_frames :: nat

text \<open>
  \<open>room\<close> is the number of frames that can still be entered where \<open>build_node\<close> is
  called: the recursion limit less the frames in use there.  The call enters one frame.
  Inside it the two \<open>.get\<close> calls come first, then the comprehension over the children,
  which is entered also when there is no child and stays entered during the calls for the
  children, then the construction of the node.
\<close>

fun build_node ::
  "frame_costs \<Rightarrow> nat \<Rightarrow> (string, string) dict \<Rightarrow> (string \<Rightarrow> string list) \<Rightarrow> string
     \<Rightarrow> error + SmartArtNode" where
  "build_node fc 0 id_to_text children_map nid = Inl RecursionError"
| "build_node fc (Suc room) id_to_text children_map nid =
     (if room < call_frames fc then Inl RecursionError
      else if room < comp_frames fc then Inl RecursionError
      else (case all_ok (map (build_node fc (room - comp_frames fc) id_to_text children_map)
                             (children_map nid)) of
              Inl e \<Rightarrow> Inl e
            | Inr kids \<Rightarrow>
                (if room < ctor_frames fc then Inl RecursionError
                 else Inr (SmartArtNode nid
                             (case dict_get id_to_text nid of None \<Rightarrow> '''' | Some t \<Rightarrow> t)
                             kids))))"

definition id_to_text_of :: "elem \<Rightarrow> (string, string) dict" where
  "id_to_text_of root = collect_points (findall_desc ''dgm:pt'' root) []"

definition children_map_of :: "elem \<Rightarrow> string \<Rightarrow> string list" where
  "children_map_of root =
     fst (collect_cxns (findall_desc ''dgm:cxn'' root) (\<lambda>k. [], \<lambda>k. 0))"

definition indegree_of :: "elem \<Rightarrow> string \<Rightarrow> nat" where
  "indegree_of root =
     snd (collect_cxns (findall_desc ''dgm:cxn'' root) (\<lambda>k. [], \<lambda>k. 0))"

definition roots_of :: "elem \<Rightarrow> string list" where
  "roots_of root = filter (\<lambda>node_id. indegree_of root node_id = 0) (map fst (id_to_text_of root))"

text \<open>The nodes \<open>build_node\<close> is started from: the roots, or every point when there is none.\<close>

definition start_ids :: "elem \<Rightarrow> string list" where
  "start_ids root = (if roots_of root \<noteq> [] then roots_of root else map fst (id_to_text_of root))"

text \<open>
  The state of the interpreter that the recursion depends on: its frame costs, and
  \<open>frames_left\<close>, the frames that can still be entered inside
  \<open>build_smartart_hierarchy\<close> when it reaches its last statement (its own frame and
  those of its callers are in use and not part of it).  The statements before the last one
  are taken to have had the frames they need.
\<close>

record interp =
  costs :: frame_costs
  frames_left :: nat

text \<open>
  The last statement of \<open>build_smartart_hierarchy\<close>: a list comprehension over the
  start nodes, with the frames of a comprehension around the calls of \<open>build_node\<close>.
\<close>

definition smartart_forest :: "interp \<Rightarrow> elem \<Rightarrow> error + SmartArtNode list" where
  "smartart_forest py root =
     (if frames_left py < comp_frames (costs py) then Inl RecursionError
      else all_ok (map (build_node (costs py) (frames_left py - comp_frames (costs py))
                          (id_to_text_of root) (children_map_of root))
                       (start_ids root)))"

definition build_smartart_hierarchy :: "zip \<Rightarrow> interp \<Rightarrow> string \<Rightarrow> error + SmartArtNode list" where
  "build_smartart_hierarchy zipf py data_model_path =
     (case load_xml zipf data_model_path of
        Inl e \<Rightarrow> Inl e
      | Inr root \<Rightarrow> smartart_forest py root)"

section \<open>The whole workbook\<close>

text \<open>
  The dictionaries of the document.  A sheet's \<open>structure\<close> holds \<open>sheet_part\<close> and
  a \<open>hierarchy\<close> that is always the empty dictionary, which is left out; the top-level
  \<open>text_content\<close> and \<open>links\<close> are never filled.
\<close>

record sheet_entry =
  se_name :: string
  se_text_content :: "(string \<times> string) list"
  se_images :: "ImageInfo list"
  se_shapes_text :: "ShapeText list"
  se_smartart :: "SmartArtNode list"
  se_sheet_part :: string

record metadata =
  md_filename :: string
  md_created :: string
  md_sheets :: "string list"

record result =
  r_text_content :: "string list"
  r_images :: "ImageInfo list"
  r_smartart :: "SmartArtNode list"
  r_links :: "string list"
  r_metadata :: metadata
  r_sheets :: "sheet_entry list"

text \<open>
  The loop over \<open>smartart_refs\<close>: the \<open>try\<close> around \<open>build_smartart_hierarchy\<close>
  drops a diagram that raises and goes on.  \<open>node_to_dict\<close> then walks the trees that
  were built, from one frame above, with one frame and one comprehension for each level
  and no other call: it enters no more frames than \<open>build_node\<close> did and does not
  raise.  The dictionaries it returns are the nodes again.
\<close>

fun smartart_loop ::
  "zip \<Rightarrow> interp \<Rightarrow> smartart_ref list \<Rightarrow> SmartArtNode list \<times> SmartArtNode list
     \<Rightarrow> SmartArtNode list \<times> SmartArtNode list" where
  "smartart_loop zipf py [] acc = acc"
| "smartart_loop zipf py ((anchor_pos, rid, data_model_path) # refs) (sheet_sm, all_sm) =
     smartart_loop zipf py refs
       (case build_smartart_hierarchy zipf py data_model_path of
          Inl e \<Rightarrow> (sheet_sm, all_sm)
        | Inr nodes \<Rightarrow> (sheet_sm @ nodes, all_sm @ nodes))"

text \<open>
  The loop over \<open>s_rels.items()\<close> of one sheet.  The call of
  \<open>extract_images_and_shapes\<close> stands in no \<open>try\<close>: what it raises leaves
  \<open>process_excel\<close>.  The files written so far stay written.
\<close>

fun drawing_loop ::
  "zip \<Rightarrow> interp \<Rightarrow> string \<Rightarrow> string \<Rightarrow> string \<Rightarrow> string \<Rightarrow> (string \<times> relationship) list
     \<Rightarrow> fs \<times> sheet_entry \<times> result \<Rightarrow> fs \<times> (error + sheet_entry \<times> result)" where
  "drawing_loop zipf py cwd images_dir sheet sheet_part [] (fs0, entry, res) =
     (fs0, Inr (entry, res))"
| "drawing_loop zipf py cwd images_dir sheet sheet_part ((rel_id, rel) # rest) (fs0, entry, res) =
     (if endswith ''/drawing'' (rel_Type rel)
      then (let drawing_part =
                  normpath (replace_str ''worksheets/../'' ''xl/''
                              (normalize_rel_target (dirname sheet_part) (rel_Target rel)))
            in if drawing_part \<in> dom zipf
               then (case extract_images_and_shapes zipf drawing_part cwd images_dir sheet fs0 of
                       Inl e \<Rightarrow> (fs0, Inl e)
                     | Inr (fs1, ims, shape_texts, refs) \<Rightarrow>
                         (let sm = smartart_loop zipf py refs (se_smartart entry, r_smartart res)
                          in drawing_loop zipf py cwd images_dir sheet sheet_part rest
                               (fs1,
                                entry\<lparr>se_images := se_images entry @ ims,
                                      se_shapes_text := se_shapes_text entry @ shape_texts,
                                      se_smartart := fst sm\<rparr>,
                                res\<lparr>r_images := r_images res @ ims, r_smartart := snd sm\<rparr>)))
               else drawing_loop zipf py cwd images_dir sheet sheet_part rest (fs0, entry, res))
      else drawing_loop zipf py cwd images_dir sheet sheet_part rest (fs0, entry, res))"

fun sheet_loop ::
  "zip \<Rightarrow> interp \<Rightarrow> string \<Rightarrow> string \<Rightarrow> (string \<Rightarrow> (string \<times> string) list)
     \<Rightarrow> (string \<times> string) list \<Rightarrow> fs \<times> result \<Rightarrow> fs \<times> (error + result)" where
  "sheet_loop zipf py cwd images_dir cells_by_sheet [] (fs0, res) = (fs0, Inr res)"
| "sheet_loop zipf py cwd images_dir cells_by_sheet ((sheet, sheet_part) # rest) (fs0, res) =
     (let entry = \<lparr>se_name = sheet, se_text_content = cells_by_sheet sheet, se_images = [],
                   se_shapes_text = [], se_smartart = [], se_sheet_part = sheet_part\<rparr>
      in case read_sheet_relationships zipf sheet_part of
           Inl e \<Rightarrow> (fs0, Inl e)
         | Inr s_rels \<Rightarrow>
             (case drawing_loop zipf py cwd images_dir sheet sheet_part s_rels (fs0, entry, res) of
                (fs1, Inl e) \<Rightarrow> (fs1, Inl e)
              | (fs1, Inr (entry1, res1)) \<Rightarrow>
                  sheet_loop zipf py cwd images_dir cells_by_sheet rest
                    (fs1, res1\<lparr>r_sheets := r_sheets res1 @ [entry1]\<rparr>)))"

definition workbook_sheets :: "zip \<Rightarrow> (string \<times> string) list" where
  "workbook_sheets zipf =
     (case parse_workbook_sheets zipf of
        Inl e \<Rightarrow> [(''Sheet1'', ''xl/worksheets/sheet1.xml'')]
      | Inr sheets \<Rightarrow> sheets)"

text \<open>
  \<open>process_excel\<close> on the opened archive.  \<open>created\<close> is the reading of the clock
  (\<open>datetime.now().isoformat()\<close>), \<open>cells_by_sheet\<close> is what \<open>extract_cells_text\<close>
  returned (read with \<open>.get(sheet_name, [])\<close>), \<open>py\<close> the interpreter as
  \<open>build_smartart_hierarchy\<close> finds it, \<open>cwd\<close> the working directory.  The directories \<open>ensure_dir\<close> makes are
  taken to exist.
\<close>

definition process_excel ::
  "string \<Rightarrow> (string \<Rightarrow> (string \<times> string) list) \<Rightarrow> zip \<Rightarrow> interp \<Rightarrow> string \<Rightarrow> string \<Rightarrow> string
     \<Rightarrow> fs \<Rightarrow> fs \<times> (error + result)" where
  "process_excel created cells_by_sheet zipf py cwd input_path output_dir fs0 =
     (let images_dir = posix_join output_dir ''images'';
          sheets = workbook_sheets zipf;
          res = \<lparr>r_text_content = [], r_images = [], r_smartart = [], r_links = [],
                 r_metadata = \<lparr>md_filename = basename input_path, md_created = created,
                               md_sheets = map fst sheets\<rparr>,
                 r_sheets = []\<rparr>
      in sheet_loop zipf py cwd images_dir cells_by_sheet sheets (fs0, res))"

section \<open>Markdown\<close>

definition slug :: "string \<Rightarrow> string" where
  "slug sheet =
     rstrip (\<lambda>c. c = CHR ''-'')
       (lstrip (\<lambda>c. c = CHR ''-'')
          (re_sub_runs (\<lambda>c. c \<in> set (ascii_lower @ ascii_digits)) ''-'' False (py_lower sheet)))"

fun walk_node :: "nat \<Rightarrow> SmartArtNode \<Rightarrow> string list" where
  "walk_node depth (SmartArtNode i t kids) =
     (concat (replicate depth ''  '') @ ''- ''
        @ (if strip t \<noteq> '''' then strip t else ''(id: '' @ i @ '')''))
     # concat (map (walk_node (depth + 1)) kids)"

definition walk :: "SmartArtNode list \<Rightarrow> nat \<Rightarrow> string list" where
  "walk nodes depth = concat (map (walk_node depth) nodes)"

definition sheet_lines :: "sheet_entry \<Rightarrow> string list" where
  "sheet_lines sheet =
     [''## '' @ se_name sheet]
     @ (if se_text_content sheet \<noteq> []
        then ['''', ''### Cell Text'']
             @ map (\<lambda>(cell, t). ''- '' @ cell @ '': '' @ t) (se_text_content sheet)
        else [])
     @ (if se_shapes_text sheet \<noteq> []
        then ['''', ''### Shapes Text'']
             @ map (\<lambda>st. ''- (r'' @ str_int (row (shape_anchor st)) @ '', c''
                          @ str_int (col (shape_anchor st)) @ ''): '' @ shape_text st)
                   (se_shapes_text sheet)
        else [])
     @ (if se_images sheet \<noteq> []
        then ['''', ''### Images'']
             @ map (\<lambda>im. ''!['' @ (''Image at r'' @ str_int (row (anchor im)) @ '' c''
                                    @ str_int (col (anchor im)))
                          @ '']('' @ image_filename im @ '')'')
                   (se_images sheet)
        else [])
     @ (if se_smartart sheet \<noteq> []
        then ['''', ''### SmartArt''] @ walk (se_smartart sheet) 0
        else [])
     @ ['''']"

definition markdown_lines :: "string \<Rightarrow> result \<Rightarrow> string list" where
  "markdown_lines generated_on output_json =
     [''# Excel to Markdown Conversion'', ''Generated on: '' @ generated_on, '''',
      ''## Table of Contents'']
     @ map (\<lambda>sheet. ''- ['' @ se_name sheet @ ''](#'' @ slug (se_name sheet) @ '')'')
           (r_sheets output_json)
     @ ['''']
     @ concat (map sheet_lines (r_sheets output_json))"

text \<open>
  \<open>generate_markdown\<close>; \<open>generated_on\<close> is the reading of the clock in its second
  line, \<open>datetime.now().strftime('%Y-%m-%d %H:%M:%S')\<close>.
\<close>

definition generate_markdown :: "string \<Rightarrow> result \<Rightarrow> string" where
  "generate_markdown generated_on output_json =
     rstrip py_isspace (join_with ''\<newline>'' (markdown_lines generated_on output_json))
       @ ''\<newline>''"

section \<open>Notions the statements use\<close>

text \<open>
  The text of one positional field of an anchor: of the child \<open>name\<close> of the anchor's
  \<open>from\<close> element.  It is \<open>None\<close> when the \<open>from\<close> element, the child or its text
  is missing.
\<close>

definition field_text :: "elem \<Rightarrow> string \<Rightarrow> string option" where
  "field_text anchor_elem name =
     (case find_elem ''xdr:from'' anchor_elem of
        None \<Rightarrow> None
      | Some from_pos \<Rightarrow>
          (case find_elem (''xdr:'' @ name) from_pos of
             None \<Rightarrow> None
           | Some child \<Rightarrow> elem_text child))"

text \<open>
  The reference one relationship id of a \<open>dgm:relIds\<close> element gives: none when the
  attribute is missing or empty or not in the relationship map.
\<close>

definition ref_of_key :: "rels \<Rightarrow> string \<Rightarrow> Anchor \<Rightarrow> elem \<Rightarrow> string \<Rightarrow> smartart_ref list" where
  "ref_of_key rels base_dir anchor_pos rel_ids key =
     (case attrib_get rel_ids (''r:'' @ key) of
        None \<Rightarrow> []
      | Some rid \<Rightarrow>
          (if rid = '''' then []
           else (case dict_get rels rid of
                   None \<Rightarrow> []
                 | Some rel \<Rightarrow>
                     [(anchor_pos, rid, normalize_rel_target base_dir (rel_Target rel))])))"



text \<open>
  The name under which the \<open>k\<close>-th image of a drawing is saved:
  \<open><sanitized sheet name>_img_<k><extension of the source part, or .bin>\<close>.
\<close>

definition image_name :: "string \<Rightarrow> nat \<Rightarrow> string \<Rightarrow> string" where
  "image_name sheet k part_in_zip =
     safe_sheet sheet @ ''_img_'' @ str_nat k
       @ (if splitext_ext part_in_zip = '''' then ''.bin'' else splitext_ext part_in_zip)"

text \<open>The drawing part a relationship of a sheet points to, as \<open>process_excel\<close> resolves it.\<close>

definition drawing_part_of :: "string \<Rightarrow> relationship \<Rightarrow> string" where
  "drawing_part_of sheet_part rel =
     normpath (replace_str ''worksheets/../'' ''xl/''
                 (normalize_rel_target (dirname sheet_part) (rel_Target rel)))"

text \<open>
  What holds of the first image while the anchors of one drawing are processed: the
  counter counts the images, and the first image, if there is one, is named with the
  counter 1 and its file holds the bytes of its source part.
\<close>

definition first_image_ok :: "zip \<Rightarrow> string \<Rightarrow> string \<Rightarrow> string \<Rightarrow> extract_state \<Rightarrow> bool" where
  "first_image_ok zipf cwd images_dir sheet st =
     (image_counter st = length (images st)
      \<and> (images st = []
          \<or> (let im = hd (images st);
                  p = posix_join images_dir (image_name sheet 1 (original_part im))
              in sheet_name im = sheet
                 \<and> image_filename im = relpath cwd p (dirname images_dir)
                 \<and> zipf (original_part im) \<noteq> None
                 \<and> files st p = map_option part_data (zipf (original_part im)))))"

text \<open>
  The components of a relative path climb above the directory the path starts in:
  read from the left, with empty components and \<open>.\<close> skipped, some \<open>..\<close> comes when
  no named component is left for it to cancel.  \<open>depth\<close> counts the named components
  that are left.
\<close>

fun climbs_above :: "nat \<Rightarrow> string list \<Rightarrow> bool" where
  "climbs_above depth [] = False"
| "climbs_above depth (c # cs) =
     (if c = '''' \<or> c = ''.'' then climbs_above depth cs
      else if c = ''..'' then (case depth of 0 \<Rightarrow> True | Suc d \<Rightarrow> climbs_above d cs)
      else climbs_above (Suc depth) cs)"





section \<open>Concrete inputs\<close>

text \<open>
  The frame costs measured on CPython 3.11 (a comprehension has a frame of its own, a call
  of \<open>dict.get\<close> counts as one frame, the construction of a \<open>SmartArtNode\<close> as two) and
  on CPython 3.12 (comprehensions are inlined, calls of built-in methods are not counted,
  the construction enters the frame of \<open>__init__\<close>), with \<open>n\<close> frames left.
\<close>

definition cpython311 :: "nat \<Rightarrow> interp" where
  "cpython311 n =
     \<lparr>costs = \<lparr>comp_frames = 1, call_frames = 1, ctor_frames = 2\<rparr>, frames_left = n\<rparr>"

definition cpython312 :: "nat \<Rightarrow> interp" where
  "cpython312 n =
     \<lparr>costs = \<lparr>comp_frames = 0, call_frames = 0, ctor_frames = 1\<rparr>, frames_left = n\<rparr>"

definition anchor_without_from :: elem where
  "anchor_without_from = Elem ''xdr:oneCellAnchor'' [] None [Elem ''xdr:sp'' [] None []]"

definition anchor_partial_from :: elem where
  "anchor_partial_from =
     Elem ''xdr:twoCellAnchor'' [] None
       [Elem ''xdr:from'' [] None
          [Elem ''xdr:col'' [] (Some ''2'') [],
           Elem ''xdr:colOff'' [] None [],
           Elem ''xdr:row'' [] (Some ''x7'') []]]"

definition hello_world_body :: elem where
  "hello_world_body =
     Elem ''xdr:txBody'' [] None
       [Elem ''a:p'' [] None
          [Elem ''a:r'' [] None [Elem ''a:t'' [] (Some ''Hello'') []],
           Elem ''a:r'' [] None [Elem ''a:t'' [] (Some '' '') []],
           Elem ''a:r'' [] None [Elem ''a:t'' [] (Some ''World'') []]]]"

definition hello_world_sp :: elem where
  "hello_world_sp = Elem ''xdr:sp'' [] None [hello_world_body]"

definition hello_world_anchor :: elem where
  "hello_world_anchor =
     Elem ''xdr:twoCellAnchor'' [] None
       [Elem ''xdr:from'' [] None
          [Elem ''xdr:col'' [] (Some ''1'') [], Elem ''xdr:colOff'' [] (Some ''0'') [],
           Elem ''xdr:row'' [] (Some ''3'') [], Elem ''xdr:rowOff'' [] (Some ''0'') []],
        hello_world_sp]"

definition hello_world_zip :: zip where
  "hello_world_zip =
     [''xl/drawings/drawing1.xml'' \<mapsto>
        Part ''<xdr:wsDr/>'' (Some (Elem ''xdr:wsDr'' [] None [hello_world_anchor]))]"

definition empty_state :: extract_state where
  "empty_state = \<lparr>files = Map.empty, image_counter = 0, images = [], shapes = [], smartart_refs = []\<rparr>"

definition diagram_rel_ids :: elem where
  "diagram_rel_ids =
     Elem ''dgm:relIds'' [(''r:dm'', ''rId1''), (''r:lo'', ''rId2'')] None []"

definition diagram_graphic_data :: elem where
  "diagram_graphic_data =
     Elem ''a:graphicData''
       [(''uri'', ''http://schemas.openxmlformats.org/drawingml/2006/diagram'')] None
       [diagram_rel_ids]"

definition diagram_frame :: elem where
  "diagram_frame =
     Elem ''xdr:graphicFrame'' [] None [Elem ''a:graphic'' [] None [diagram_graphic_data]]"

definition diagram_anchor :: elem where
  "diagram_anchor =
     Elem ''xdr:twoCellAnchor'' [] None
       [Elem ''xdr:from'' [] None
          [Elem ''xdr:col'' [] (Some ''0'') [], Elem ''xdr:row'' [] (Some ''5'') []],
        diagram_frame]"

definition diagram_rels :: rels where
  "diagram_rels =
     [(''rId1'', \<lparr>rel_Type = ''http://schemas.microsoft.com/office/2007/relationships/diagramData'',
                  rel_Target = ''../diagrams/data1.xml''\<rparr>),
      (''rId2'', \<lparr>rel_Type = ''http://schemas.microsoft.com/office/2007/relationships/diagramLayout'',
                  rel_Target = ''../diagrams/layout1.xml''\<rparr>)]"

definition diagram_rels_xml :: elem where
  "diagram_rels_xml =
     Elem ''pr:Relationships'' [] None
       [Elem ''pr:Relationship''
          [(''Id'', ''rId1''),
           (''Type'', ''http://schemas.microsoft.com/office/2007/relationships/diagramData''),
           (''Target'', ''../diagrams/data1.xml'')] None [],
        Elem ''pr:Relationship''
          [(''Id'', ''rId2''),
           (''Type'', ''http://schemas.microsoft.com/office/2007/relationships/diagramLayout''),
           (''Target'', ''../diagrams/layout1.xml'')] None []]"

definition diagram_zip :: zip where
  "diagram_zip =
     [''xl/drawings/drawing1.xml'' \<mapsto>
        Part ''<xdr:wsDr/>'' (Some (Elem ''xdr:wsDr'' [] None [diagram_anchor])),
      ''xl/drawings/_rels/drawing1.xml.rels'' \<mapsto>
        Part ''<Relationships/>'' (Some diagram_rels_xml)]"






definition picture_anchor :: "string \<Rightarrow> elem" where
  "picture_anchor rid =
     Elem ''xdr:twoCellAnchor'' [] None
       [Elem ''xdr:from'' [] None
          [Elem ''xdr:col'' [] (Some ''1'') [], Elem ''xdr:colOff'' [] (Some ''0'') [],
           Elem ''xdr:row'' [] (Some ''2'') [], Elem ''xdr:rowOff'' [] (Some ''0'') []],
        Elem ''xdr:pic'' [] None
          [Elem ''xdr:blipFill'' [] None [Elem ''a:blip'' [(''r:embed'', rid)] None []]]]"

definition image_rels_xml :: "string \<Rightarrow> elem" where
  "image_rels_xml target =
     Elem ''pr:Relationships'' [] None
       [Elem ''pr:Relationship''
          [(''Id'', ''rId1''),
           (''Type'', ''http://schemas.openxmlformats.org/officeDocument/2006/relationships/image''),
           (''Target'', target)] None []]"

definition sales_zip :: zip where
  "sales_zip =
     [''xl/drawings/drawing1.xml'' \<mapsto>
        Part ''<xdr:wsDr/>'' (Some (Elem ''xdr:wsDr'' [] None [picture_anchor ''rId1''])),
      ''xl/drawings/_rels/drawing1.xml.rels'' \<mapsto>
        Part ''<Relationships/>'' (Some (image_rels_xml ''../media/image1.png'')),
      ''xl/media/image1.png'' \<mapsto> Part ''PNG bytes of image1'' None]"

definition drawing_rels_xml :: elem where
  "drawing_rels_xml =
     Elem ''pr:Relationships'' [] None
       [Elem ''pr:Relationship''
          [(''Id'', ''rId1''),
           (''Type'', ''http://schemas.openxmlformats.org/officeDocument/2006/relationships/drawing''),
           (''Target'', ''../drawings/drawing1.xml'')] None [],
        Elem ''pr:Relationship''
          [(''Id'', ''rId2''),
           (''Type'', ''http://schemas.openxmlformats.org/officeDocument/2006/relationships/drawing''),
           (''Target'', ''../drawings/drawing2.xml'')] None []]"

definition workbook_xml :: elem where
  "workbook_xml =
     Elem ''s:workbook'' [] None
       [Elem ''s:sheets'' [] None
          [Elem ''s:sheet'' [(''name'', ''Sales''), (''sheetId'', ''1''), (''r:id'', ''rId1'')] None []]]"

definition workbook_rels_xml :: elem where
  "workbook_rels_xml =
     Elem ''pr:Relationships'' [] None
       [Elem ''pr:Relationship''
          [(''Id'', ''rId1''),
           (''Type'', ''http://schemas.openxmlformats.org/officeDocument/2006/relationships/worksheet''),
           (''Target'', ''worksheets/sheet1.xml'')] None []]"

text \<open>
  A workbook with the sheet \<open>Sales\<close> and two drawings, each with one picture; the second
  picture is the media part \<open>image2\<close>.
\<close>

definition two_drawings_zip :: "string \<Rightarrow> zip" where
  "two_drawings_zip image2 =
     [''xl/workbook.xml'' \<mapsto> Part ''<workbook/>'' (Some workbook_xml),
      ''xl/_rels/workbook.xml.rels'' \<mapsto> Part ''<Relationships/>'' (Some workbook_rels_xml),
      ''xl/worksheets/sheet1.xml'' \<mapsto>
        Part ''<worksheet/>'' (Some (Elem ''s:worksheet'' [] None [])),
      ''xl/worksheets/_rels/sheet1.xml.rels'' \<mapsto>
        Part ''<Relationships/>'' (Some drawing_rels_xml),
      ''xl/drawings/drawing1.xml'' \<mapsto>
        Part ''<xdr:wsDr/>'' (Some (Elem ''xdr:wsDr'' [] None [picture_anchor ''rId1''])),
      ''xl/drawings/drawing2.xml'' \<mapsto>
        Part ''<xdr:wsDr/>'' (Some (Elem ''xdr:wsDr'' [] None [picture_anchor ''rId1''])),
      ''xl/drawings/_rels/drawing1.xml.rels'' \<mapsto>
        Part ''<Relationships/>'' (Some (image_rels_xml ''../media/image1.png'')),
      ''xl/drawings/_rels/drawing2.xml.rels'' \<mapsto>
        Part ''<Relationships/>'' (Some (image_rels_xml (''../media/'' @ image2))),
      ''xl/media/image1.png'' \<mapsto> Part ''PNG bytes of image1'' None,
      ''xl/media/'' @ image2 \<mapsto> Part ''bytes of image2'' None]"

definition drawing_rel :: "string \<Rightarrow> relationship" where
  "drawing_rel target =
     \<lparr>rel_Type = ''http://schemas.openxmlformats.org/officeDocument/2006/relationships/drawing'',
      rel_Target = target\<rparr>"

definition sales_entry :: sheet_entry where
  "sales_entry =
     \<lparr>se_name = ''Sales'', se_text_content = [], se_images = [], se_shapes_text = [],
      se_smartart = [], se_sheet_part = ''xl/worksheets/sheet1.xml''\<rparr>"

definition empty_result :: result where
  "empty_result =
     \<lparr>r_text_content = [], r_images = [], r_smartart = [], r_links = [],
      r_metadata = \<lparr>md_filename = ''book.xlsx'', md_created = ''2026-01-01T00:00:00'',
                    md_sheets = [''Sales'']\<rparr>,
      r_sheets = []\<rparr>"

text \<open>
  What \<open>process_excel\<close> returns for the workbook with \<open>image1.png\<close> and
  \<open>image2.png\<close>, the clock reading \<open>created\<close>.
\<close>

definition two_png_result :: "string \<Rightarrow> result" where
  "two_png_result created =
     \<lparr>r_text_content = [],
      r_images =
        [\<lparr>sheet_name = ''Sales'', image_filename = ''images/Sales_img_1.png'',
          original_part = ''xl/media/image1.png'',
          anchor = \<lparr>col = 1, colOff = 0, row = 2, rowOff = 0\<rparr>\<rparr>,
         \<lparr>sheet_name = ''Sales'', image_filename = ''images/Sales_img_1.png'',
          original_part = ''xl/media/image2.png'',
          anchor = \<lparr>col = 1, colOff = 0, row = 2, rowOff = 0\<rparr>\<rparr>],
      r_smartart = [], r_links = [],
      r_metadata = \<lparr>md_filename = ''book.xlsx'', md_created = created, md_sheets = [''Sales'']\<rparr>,
      r_sheets =
        [\<lparr>se_name = ''Sales'', se_text_content = [],
          se_images =
            [\<lparr>sheet_name = ''Sales'', image_filename = ''images/Sales_img_1.png'',
              original_part = ''xl/media/image1.png'',
              anchor = \<lparr>col = 1, colOff = 0, row = 2, rowOff = 0\<rparr>\<rparr>,
             \<lparr>sheet_name = ''Sales'', image_filename = ''images/Sales_img_1.png'',
              original_part = ''xl/media/image2.png'',
              anchor = \<lparr>col = 1, colOff = 0, row = 2, rowOff = 0\<rparr>\<rparr>],
          se_shapes_text = [], se_smartart = [],
          se_sheet_part = ''xl/worksheets/sheet1.xml''\<rparr>]\<rparr>"

text \<open>The workbook with two drawings, the first of them not well-formed XML.\<close>

definition broken_drawing_zip :: zip where
  "broken_drawing_zip =
     (two_drawings_zip ''image2.png'')
       (''xl/drawings/drawing1.xml'' \<mapsto> Part ''<xdr:wsDr><xdr:twoCellAnchor'' None)"

section \<open>Properties\<close>

subsection \<open>Anchors\<close>

lemma read_child_field:
  "find_elem ''xdr:from'' e = Some f \<Longrightarrow>
   read_child f name =
     (case field_text e name of
        None \<Rightarrow> 0
      | Some t \<Rightarrow> (case py_int t of Inl err \<Rightarrow> 0 | Inr n \<Rightarrow> n))"
  by (simp add: read_child_def field_text_def split: option.splits)

text \<open>
  Claim C9.  \<open>extract_anchor\<close> is a total function into the record of the four integers
  \<open>col\<close>, \<open>colOff\<close>, \<open>row\<close>, \<open>rowOff\<close>: it has no error result.  Each field is 0 when its
  text is missing, 0 when \<open>int\<close> rejects the text (the \<open>ValueError\<close> is caught), and the
  integer read otherwise; an anchor with no \<open>from\<close> element gives the record of four zeros.
\<close>

theorem extract_anchor_defaults:
  "((name, sel) \<in> {(''col'', col), (''colOff'', colOff), (''row'', row), (''rowOff'', rowOff)}
      \<longrightarrow> sel (extract_anchor e) =
            (case field_text e name of
               None \<Rightarrow> 0
             | Some t \<Rightarrow> (case py_int t of Inl err \<Rightarrow> 0 | Inr n \<Rightarrow> n)))
   \<and> (find_elem ''xdr:from'' e = None
        \<longrightarrow> extract_anchor e = \<lparr>col = 0, colOff = 0, row = 0, rowOff = 0\<rparr>)"
proof (cases "find_elem ''xdr:from'' e")
  case None
  then show ?thesis
    by (auto simp: extract_anchor_def field_text_def)
next
  case (Some f)
  then show ?thesis
    by (auto simp: extract_anchor_def read_pos_def read_child_field)
qed

text \<open>
  The theorem at an anchor with no \<open>from\<close> element, and at one whose \<open>from\<close>
  element has a column, a \<open>colOff\<close> without text and a row that is no integer.
\<close>

theorem extract_anchor_defaults_witness:
  "(''colOff'', colOff) \<in> {(''col'', col), (''colOff'', colOff), (''row'', row), (''rowOff'', rowOff)}
   \<and> find_elem ''xdr:from'' anchor_without_from = None
   \<and> extract_anchor anchor_without_from = \<lparr>col = 0, colOff = 0, row = 0, rowOff = 0\<rparr>
   \<and> field_text anchor_partial_from ''colOff'' = None
   \<and> colOff (extract_anchor anchor_partial_from) = 0
   \<and> extract_anchor anchor_partial_from = \<lparr>col = 2, colOff = 0, row = 0, rowOff = 0\<rparr>"
proof -
  have mem: "(''colOff'', colOff)
      \<in> {(''col'', col), (''colOff'', colOff), (''row'', row), (''rowOff'', rowOff)}"
    by simp
  have no_from: "find_elem ''xdr:from'' anchor_without_from = None"
    by code_simp
  have no_off: "field_text anchor_partial_from ''colOff'' = None"
    by code_simp
  have whole: "extract_anchor anchor_partial_from = \<lparr>col = 2, colOff = 0, row = 0, rowOff = 0\<rparr>"
    by code_simp
  from extract_anchor_defaults [of "''colOff''" colOff anchor_without_from]
       extract_anchor_defaults [of "''colOff''" colOff anchor_partial_from]
  show ?thesis using mem no_from no_off whole by simp
qed

subsection \<open>Shapes with text\<close>

lemma text_nodes_runs:
  "read_text_nodes e
     = map the (filter (\<lambda>t. t \<noteq> None) (map elem_text (findall_desc ''a:t'' e)))"
proof -
  have "concat (map (\<lambda>n. case elem_text n of None \<Rightarrow> [] | Some t \<Rightarrow> [t]) ns)
          = map the (filter (\<lambda>t. t \<noteq> None) (map elem_text ns))" for ns :: "elem list"
    by (induction ns) (auto split: option.splits)
  then show ?thesis by (simp add: read_text_nodes_def)
qed

lemma anchor_step_shape:
  assumes "find_elem ''xdr:pic'' a = None"
      and "find_elem ''xdr:sp'' a = Some sp"
      and "find_elem ''xdr:txBody'' sp = Some tx_body"
  shows "anchor_step zipf rels base_dir cwd images_dir sheet st a
           = (let t = strip (join_with '' '' (map strip (read_text_nodes tx_body)))
              in if t \<noteq> ''''
                 then st\<lparr>shapes := shapes st @
                         [\<lparr>shape_sheet_name = sheet, shape_text = t,
                           shape_anchor = extract_anchor a\<rparr>]\<rparr>
                 else st)"
  using assms by (simp add: anchor_step_def joined_text_def Let_def)

lemma extract_unfold:
  assumes "load_xml zipf p = Inr root" and "read_rels zipf p = Inr rels"
  shows "extract_images_and_shapes zipf p cwd images_dir sheet fs0
           = (let st = foldl (anchor_step zipf rels (dirname p) cwd images_dir sheet)
                         \<lparr>files = fs0, image_counter = 0, images = [], shapes = [],
                          smartart_refs = []\<rparr>
                         (iter_anchors root)
              in Inr (files st, images st, shapes st, smartart_refs st))"
  using assms by (simp add: extract_images_and_shapes_def)

lemma hello_world_parts:
  "find_elem ''xdr:pic'' hello_world_anchor = None"
  "find_elem ''xdr:sp'' hello_world_anchor = Some hello_world_sp"
  "find_elem ''xdr:txBody'' hello_world_sp = Some hello_world_body"
  "read_text_nodes hello_world_body = [''Hello'', '' '', ''World'']"
  "strip (join_with '' '' (map strip [''Hello'', '' '', ''World''])) = ''Hello  World''"
  "extract_anchor hello_world_anchor = \<lparr>col = 1, colOff = 0, row = 3, rowOff = 0\<rparr>"
  by code_simp+

text \<open>
  Claim C1, as amended.  For an anchor that holds no picture and a shape with a text body,
  the runs are the texts of all \<open>a:t\<close> nodes under the body in document order, nodes
  without text left out.  Every run is stripped first, the stripped runs are joined by
  single spaces, and the result is stripped.  One item with that text is appended when the
  text is not empty, and nothing otherwise.
\<close>

theorem shape_text_runs:
  assumes "find_elem ''xdr:pic'' a = None"
      and "find_elem ''xdr:sp'' a = Some sp"
      and "find_elem ''xdr:txBody'' sp = Some tx_body"
  shows "read_text_nodes tx_body
           = map the (filter (\<lambda>t. t \<noteq> None) (map elem_text (findall_desc ''a:t'' tx_body)))
         \<and> anchor_step zipf rels base_dir cwd images_dir sheet st a
           = (let t = strip (join_with '' '' (map strip (read_text_nodes tx_body)))
              in if t \<noteq> ''''
                 then st\<lparr>shapes := shapes st @
                         [\<lparr>shape_sheet_name = sheet, shape_text = t,
                           shape_anchor = extract_anchor a\<rparr>]\<rparr>
                 else st)"
  using text_nodes_runs anchor_step_shape [OF assms] by (rule conjI)

text \<open>The theorem at the shape with the runs \<open>Hello\<close>, one space, \<open>World\<close>.\<close>

theorem shape_text_runs_witness:
  "find_elem ''xdr:pic'' hello_world_anchor = None
   \<and> find_elem ''xdr:sp'' hello_world_anchor = Some hello_world_sp
   \<and> find_elem ''xdr:txBody'' hello_world_sp = Some hello_world_body
   \<and> read_text_nodes hello_world_body = [''Hello'', '' '', ''World'']
   \<and> shapes (anchor_step Map.empty [] ''xl/drawings'' ''/'' ''/out/images'' ''Sales''
               empty_state hello_world_anchor)
       = [\<lparr>shape_sheet_name = ''Sales'', shape_text = ''Hello  World'',
           shape_anchor = \<lparr>col = 1, colOff = 0, row = 3, rowOff = 0\<rparr>\<rparr>]"
proof -
  from shape_text_runs [OF hello_world_parts(1-3), of Map.empty "[]" "''xl/drawings''" "''/''"
      "''/out/images''" "''Sales''" empty_state]
  have "shapes (anchor_step Map.empty [] ''xl/drawings'' ''/'' ''/out/images'' ''Sales''
               empty_state hello_world_anchor)
       = [\<lparr>shape_sheet_name = ''Sales'', shape_text = ''Hello  World'',
           shape_anchor = \<lparr>col = 1, colOff = 0, row = 3, rowOff = 0\<rparr>\<rparr>]"
    by (simp only: hello_world_parts Let_def) (simp add: empty_state_def)
  with hello_world_parts show ?thesis by blast
qed

text \<open>
  The runs \<open>Hello\<close>, one space, \<open>World\<close> do not give \<open>Hello World\<close>: the middle run
  is stripped to the empty string, and the join puts a space on each side of it.
\<close>

theorem shape_text_hello_world_counterexample:
  "extract_images_and_shapes hello_world_zip ''xl/drawings/drawing1.xml'' ''/'' ''/out/images''
      ''Sales'' Map.empty
     = Inr (Map.empty, [],
            [\<lparr>shape_sheet_name = ''Sales'', shape_text = ''Hello  World'',
              shape_anchor = \<lparr>col = 1, colOff = 0, row = 3, rowOff = 0\<rparr>\<rparr>], [])
   \<and> ''Hello  World'' \<noteq> ''Hello World''"
proof -
  have l: "load_xml hello_world_zip ''xl/drawings/drawing1.xml''
             = Inr (Elem ''xdr:wsDr'' [] None [hello_world_anchor])"
    by code_simp
  have r: "read_rels hello_world_zip ''xl/drawings/drawing1.xml'' = Inr []"
    by code_simp
  have i: "iter_anchors (Elem ''xdr:wsDr'' [] None [hello_world_anchor]) = [hello_world_anchor]"
    by code_simp
  have s: "anchor_step hello_world_zip [] (dirname ''xl/drawings/drawing1.xml'') ''/''
              ''/out/images'' ''Sales''
              \<lparr>files = Map.empty, image_counter = 0, images = [], shapes = [], smartart_refs = []\<rparr>
              hello_world_anchor
            = \<lparr>files = Map.empty, image_counter = 0, images = [],
               shapes = [\<lparr>shape_sheet_name = ''Sales'', shape_text = ''Hello  World'',
                          shape_anchor = \<lparr>col = 1, colOff = 0, row = 3, rowOff = 0\<rparr>\<rparr>],
               smartart_refs = []\<rparr>"
    by (simp only: anchor_step_shape [OF hello_world_parts(1-3)] hello_world_parts Let_def) simp
  show ?thesis
    by (simp add: extract_unfold [OF l r] i s)
qed

subsection \<open>Graphic frames\<close>

lemma style_refs_concat:
  "style_refs rels base_dir pos rel_ids keys refs
     = refs @ concat (map (ref_of_key rels base_dir pos rel_ids) keys)"
  by (induction keys arbitrary: refs) (auto simp: ref_of_key_def split: option.splits)

lemma anchor_step_frame:
  assumes "find_elem ''xdr:pic'' a = None"
      and "find_elem ''xdr:sp'' a = None"
      and "find_elem ''xdr:graphicFrame'' a = Some gframe"
      and "find_desc ''a:graphicData'' gframe = Some gdata"
      and "endswith ''/diagram'' (attrib_get_or gdata ''uri'' '''')"
      and "find_elem ''dgm:relIds'' gdata = Some rel_ids"
  shows "anchor_step zipf rels base_dir cwd images_dir sheet st a
           = st\<lparr>smartart_refs := smartart_refs st @
                  concat (map (ref_of_key rels base_dir (extract_anchor a) rel_ids)
                              [''dm'', ''lo'', ''qs'', ''cs''])\<rparr>"
  using assms
  by (simp add: anchor_step_def Let_def style_refs_concat ref_of_key_def split: option.splits)

lemma diagram_parts:
  "find_elem ''xdr:pic'' diagram_anchor = None"
  "find_elem ''xdr:sp'' diagram_anchor = None"
  "find_elem ''xdr:graphicFrame'' diagram_anchor = Some diagram_frame"
  "find_desc ''a:graphicData'' diagram_frame = Some diagram_graphic_data"
  "endswith ''/diagram'' (attrib_get_or diagram_graphic_data ''uri'' '''')"
  "find_elem ''dgm:relIds'' diagram_graphic_data = Some diagram_rel_ids"
  by code_simp+

lemma diagram_refs:
  "concat (map (ref_of_key diagram_rels ''xl/drawings'' (extract_anchor diagram_anchor)
                  diagram_rel_ids) [''dm'', ''lo'', ''qs'', ''cs''])
     = [(\<lparr>col = 0, colOff = 0, row = 5, rowOff = 0\<rparr>, ''rId1'', ''xl/diagrams/data1.xml''),
        (\<lparr>col = 0, colOff = 0, row = 5, rowOff = 0\<rparr>, ''rId2'', ''xl/diagrams/layout1.xml'')]"
  by code_simp

text \<open>
  Claim C7, as amended.  For a graphic frame that references a diagram and carries a
  \<open>relIds\<close> element, the four relationship ids \<open>dm\<close>, \<open>lo\<close>, \<open>qs\<close>, \<open>cs\<close> are treated
  alike and in that order: each one that is present, non-empty and found in the drawing's
  relationship map appends its own reference.  The \<open>dm\<close> reference comes first; the other
  three are not held back when it is there.
\<close>

theorem frame_refs_all_keys:
  assumes "find_elem ''xdr:pic'' a = None"
      and "find_elem ''xdr:sp'' a = None"
      and "find_elem ''xdr:graphicFrame'' a = Some gframe"
      and "find_desc ''a:graphicData'' gframe = Some gdata"
      and "endswith ''/diagram'' (attrib_get_or gdata ''uri'' '''')"
      and "find_elem ''dgm:relIds'' gdata = Some rel_ids"
  shows "anchor_step zipf rels base_dir cwd images_dir sheet st a
           = st\<lparr>smartart_refs := smartart_refs st @
                  concat (map (ref_of_key rels base_dir (extract_anchor a) rel_ids)
                              [''dm'', ''lo'', ''qs'', ''cs''])\<rparr>"
  using assms by (rule anchor_step_frame)

text \<open>The theorem at a frame whose \<open>dm\<close> and \<open>lo\<close> ids both resolve.\<close>

theorem frame_refs_all_keys_witness:
  "find_elem ''xdr:pic'' diagram_anchor = None
   \<and> find_elem ''xdr:sp'' diagram_anchor = None
   \<and> find_elem ''xdr:graphicFrame'' diagram_anchor = Some diagram_frame
   \<and> find_desc ''a:graphicData'' diagram_frame = Some diagram_graphic_data
   \<and> endswith ''/diagram'' (attrib_get_or diagram_graphic_data ''uri'' '''')
   \<and> find_elem ''dgm:relIds'' diagram_graphic_data = Some diagram_rel_ids
   \<and> smartart_refs (anchor_step Map.empty diagram_rels ''xl/drawings'' ''/'' ''/out/images''
                      ''Sales'' empty_state diagram_anchor)
       = [(\<lparr>col = 0, colOff = 0, row = 5, rowOff = 0\<rparr>, ''rId1'', ''xl/diagrams/data1.xml''),
          (\<lparr>col = 0, colOff = 0, row = 5, rowOff = 0\<rparr>, ''rId2'', ''xl/diagrams/layout1.xml'')]"
proof -
  from frame_refs_all_keys [OF diagram_parts, of Map.empty diagram_rels "''xl/drawings''"
      "''/''" "''/out/images''" "''Sales''" empty_state]
  have "smartart_refs (anchor_step Map.empty diagram_rels ''xl/drawings'' ''/'' ''/out/images''
                      ''Sales'' empty_state diagram_anchor)
       = [(\<lparr>col = 0, colOff = 0, row = 5, rowOff = 0\<rparr>, ''rId1'', ''xl/diagrams/data1.xml''),
          (\<lparr>col = 0, colOff = 0, row = 5, rowOff = 0\<rparr>, ''rId2'', ''xl/diagrams/layout1.xml'')]"
    by (simp only: diagram_refs) (simp add: empty_state_def)
  with diagram_parts show ?thesis by blast
qed

text \<open>
  A frame with a resolvable \<open>dm\<close> id and a resolvable \<open>lo\<close> id yields two references,
  the layout one after the data model one.
\<close>

theorem frame_dm_and_lo_counterexample:
  "extract_images_and_shapes diagram_zip ''xl/drawings/drawing1.xml'' ''/'' ''/out/images''
      ''Sales'' Map.empty
     = Inr (Map.empty, [], [],
            [(\<lparr>col = 0, colOff = 0, row = 5, rowOff = 0\<rparr>, ''rId1'', ''xl/diagrams/data1.xml''),
             (\<lparr>col = 0, colOff = 0, row = 5, rowOff = 0\<rparr>, ''rId2'',
              ''xl/diagrams/layout1.xml'')])"
proof -
  have l: "load_xml diagram_zip ''xl/drawings/drawing1.xml''
             = Inr (Elem ''xdr:wsDr'' [] None [diagram_anchor])"
    by code_simp
  have r: "read_rels diagram_zip ''xl/drawings/drawing1.xml'' = Inr diagram_rels"
    by code_simp
  have i: "iter_anchors (Elem ''xdr:wsDr'' [] None [diagram_anchor]) = [diagram_anchor]"
    by code_simp
  have d: "dirname ''xl/drawings/drawing1.xml'' = ''xl/drawings''"
    by code_simp
  show ?thesis
    by (simp only: extract_unfold [OF l r] i d foldl.simps Let_def
          anchor_step_frame [OF diagram_parts] diagram_refs) simp
qed

subsection \<open>SmartArt\<close>































subsection \<open>Path normalisation\<close>





lemma join_with_Cons:
  "join_with sep (c # cs) = c @ (if cs = [] then [] else sep @ join_with sep cs)"
  by (cases cs) auto


























subsection \<open>Pictures\<close>

lemma anchor_step_picture:
  assumes "find_elem ''xdr:pic'' a = Some pic"
      and "find_desc ''a:blip'' pic = Some blip"
      and "attrib_get blip ''r:embed'' = Some rid"
      and "rid \<noteq> ''''"
      and "dict_get rels rid = Some rel"
      and "normalize_rel_target base_dir (rel_Target rel) = part_in_zip"
      and "zipf part_in_zip = Some src"
  shows "anchor_step zipf rels base_dir cwd images_dir sheet st a
           = save_image cwd images_dir sheet (extract_anchor a) part_in_zip src st"
  using assms by (simp add: anchor_step_def Let_def)

lemma save_image_name:
  "save_image cwd images_dir sheet pos part_in_zip src st
     = st\<lparr>files := (files st)(posix_join images_dir
                                  (image_name sheet (Suc (image_counter st)) part_in_zip)
                                \<mapsto> part_data src),
           image_counter := Suc (image_counter st),
           images := images st @
             [\<lparr>sheet_name = sheet,
               image_filename =
                 relpath cwd
                   (posix_join images_dir (image_name sheet (Suc (image_counter st)) part_in_zip))
                   (dirname images_dir),
               original_part = part_in_zip,
               anchor = pos\<rparr>]\<rparr>"
  by (simp add: save_image_def image_name_def Let_def)

text \<open>
  Claim C8.  A drawing part whose only anchor is a \<open>twoCellAnchor\<close> with a picture, the
  picture's relationship id resolving through the relationship map to a part of the
  archive, gives exactly one image, for the sheet it is processed for; the image is saved
  under the name with the counter 1 and the extension of the source part (\<open>.bin\<close> if it
  has none), and the bytes written are the bytes of the source part.  For the sheet
  \<open>Sales\<close> and the part \<open>xl/media/image1.png\<close> the name is \<open>Sales_img_1.png\<close>.
\<close>

theorem one_picture_one_image:
  assumes "load_xml zipf drawing_path = Inr drawing_root"
      and "read_rels zipf drawing_path = Inr rels"
      and "findall ''xdr:twoCellAnchor'' drawing_root = [a]"
      and "findall ''xdr:oneCellAnchor'' drawing_root = []"
      and "find_elem ''xdr:pic'' a = Some pic"
      and "find_desc ''a:blip'' pic = Some blip"
      and "attrib_get blip ''r:embed'' = Some rid"
      and "rid \<noteq> ''''"
      and "dict_get rels rid = Some rel"
      and "normalize_rel_target (dirname drawing_path) (rel_Target rel) = part_in_zip"
      and "zipf part_in_zip = Some src"
  shows "extract_images_and_shapes zipf drawing_path cwd images_dir sheet fs0
           = Inr (fs0(posix_join images_dir (image_name sheet 1 part_in_zip) \<mapsto> part_data src),
                  [\<lparr>sheet_name = sheet,
                    image_filename =
                      relpath cwd (posix_join images_dir (image_name sheet 1 part_in_zip))
                        (dirname images_dir),
                    original_part = part_in_zip,
                    anchor = extract_anchor a\<rparr>],
                  [], [])
         \<and> image_name sheet 1 part_in_zip
             = safe_sheet sheet @ ''_img_1''
                 @ (if splitext_ext part_in_zip = '''' then ''.bin'' else splitext_ext part_in_zip)
         \<and> image_name ''Sales'' 1 ''xl/media/image1.png'' = ''Sales_img_1.png''"
proof -
  have anchors: "iter_anchors drawing_root = [a]"
    using assms(3,4) by (simp add: iter_anchors_def)
  have one: "str_nat (Suc 0) = ''1''"
    by (simp add: str_nat.simps ascii_digits_def)
  have name: "image_name ''Sales'' 1 ''xl/media/image1.png'' = ''Sales_img_1.png''"
    by code_simp
  have "extract_images_and_shapes zipf drawing_path cwd images_dir sheet fs0
           = Inr (fs0(posix_join images_dir (image_name sheet 1 part_in_zip) \<mapsto> part_data src),
                  [\<lparr>sheet_name = sheet,
                    image_filename =
                      relpath cwd (posix_join images_dir (image_name sheet 1 part_in_zip))
                        (dirname images_dir),
                    original_part = part_in_zip,
                    anchor = extract_anchor a\<rparr>],
                  [], [])"
    by (simp add: extract_unfold [OF assms(1,2)] anchors
          anchor_step_picture [where zipf = zipf and part_in_zip = part_in_zip, OF assms(5-11)]
          save_image_name)
  moreover have "image_name sheet 1 part_in_zip
             = safe_sheet sheet @ ''_img_1''
                 @ (if splitext_ext part_in_zip = '''' then ''.bin'' else splitext_ext part_in_zip)"
    by (simp add: image_name_def one)
  ultimately show ?thesis using name by blast
qed

lemma sales_facts:
  "load_xml sales_zip ''xl/drawings/drawing1.xml''
     = Inr (Elem ''xdr:wsDr'' [] None [picture_anchor ''rId1''])"
  "read_rels sales_zip ''xl/drawings/drawing1.xml''
     = Inr [(''rId1'',
             \<lparr>rel_Type = ''http://schemas.openxmlformats.org/officeDocument/2006/relationships/image'',
              rel_Target = ''../media/image1.png''\<rparr>)]"
  "findall ''xdr:twoCellAnchor'' (Elem ''xdr:wsDr'' [] None [picture_anchor ''rId1''])
     = [picture_anchor ''rId1'']"
  "findall ''xdr:oneCellAnchor'' (Elem ''xdr:wsDr'' [] None [picture_anchor ''rId1'']) = []"
  "find_elem ''xdr:pic'' (picture_anchor ''rId1'')
     = Some (Elem ''xdr:pic'' [] None
               [Elem ''xdr:blipFill'' [] None [Elem ''a:blip'' [(''r:embed'', ''rId1'')] None []]])"
  "find_desc ''a:blip''
     (Elem ''xdr:pic'' [] None
        [Elem ''xdr:blipFill'' [] None [Elem ''a:blip'' [(''r:embed'', ''rId1'')] None []]])
     = Some (Elem ''a:blip'' [(''r:embed'', ''rId1'')] None [])"
  "attrib_get (Elem ''a:blip'' [(''r:embed'', ''rId1'')] None []) ''r:embed'' = Some ''rId1''"
  "''rId1'' \<noteq> ''''"
  "dict_get [(''rId1'',
             \<lparr>rel_Type = ''http://schemas.openxmlformats.org/officeDocument/2006/relationships/image'',
              rel_Target = ''../media/image1.png''\<rparr>)] ''rId1''
     = Some \<lparr>rel_Type = ''http://schemas.openxmlformats.org/officeDocument/2006/relationships/image'',
              rel_Target = ''../media/image1.png''\<rparr>"
  "normalize_rel_target (dirname ''xl/drawings/drawing1.xml'')
     (rel_Target \<lparr>rel_Type = ''http://schemas.openxmlformats.org/officeDocument/2006/relationships/image'',
              rel_Target = ''../media/image1.png''\<rparr>) = ''xl/media/image1.png''"
  "sales_zip ''xl/media/image1.png'' = Some (Part ''PNG bytes of image1'' None)"
  by code_simp+

text \<open>The theorem at the drawing of the scenario, written to \<open>/out/images\<close>.\<close>

theorem one_picture_one_image_witness:
  "extract_images_and_shapes sales_zip ''xl/drawings/drawing1.xml'' ''/home/user'' ''/out/images''
      ''Sales'' Map.empty
     = Inr ([''/out/images/Sales_img_1.png'' \<mapsto> ''PNG bytes of image1''],
            [\<lparr>sheet_name = ''Sales'', image_filename = ''images/Sales_img_1.png'',
              original_part = ''xl/media/image1.png'',
              anchor = \<lparr>col = 1, colOff = 0, row = 2, rowOff = 0\<rparr>\<rparr>],
            [], [])"
proof -
  have name: "image_name ''Sales'' 1 ''xl/media/image1.png'' = ''Sales_img_1.png''"
    and path: "posix_join ''/out/images'' ''Sales_img_1.png'' = ''/out/images/Sales_img_1.png''"
    and rel: "relpath ''/home/user'' ''/out/images/Sales_img_1.png'' (dirname ''/out/images'')
                = ''images/Sales_img_1.png''"
    and pos: "extract_anchor (picture_anchor ''rId1'') = \<lparr>col = 1, colOff = 0, row = 2, rowOff = 0\<rparr>"
    by code_simp+
  from one_picture_one_image
         [where zipf = sales_zip and part_in_zip = "''xl/media/image1.png''", OF sales_facts,
          of "''/home/user''" "''/out/images''" "''Sales''" Map.empty]
  show ?thesis by (simp only: name path rel pos part.sel)
qed

subsection \<open>The first image of a drawing\<close>

lemma str_nat_digits: "str_nat k \<noteq> [] \<and> set (str_nat k) \<subseteq> set ascii_digits"
proof (induction k rule: str_nat.induct)
  case (1 n)
  show ?case
  proof (cases "n < 10")
    case True
    then have "ascii_digits ! n \<in> set ascii_digits"
      by (intro nth_mem) (simp add: ascii_digits_def)
    with True show ?thesis by (simp add: str_nat.simps [of n])
  next
    case False
    have "n mod 10 < 10" by simp
    then have "ascii_digits ! (n mod 10) \<in> set ascii_digits"
      by (intro nth_mem) (simp add: ascii_digits_def)
    with False 1 show ?thesis by (simp add: str_nat.simps [of n])
  qed
qed

lemma str_nat_one: "str_nat k = ''1'' \<Longrightarrow> k = 1"
proof (cases "k < 10")
  case True
  assume "str_nat k = ''1''"
  with True have "ascii_digits ! k = ascii_digits ! 1"
    by (simp add: str_nat.simps [of k] ascii_digits_def)
  moreover have "distinct ascii_digits" by (simp add: ascii_digits_def)
  moreover have "k < length ascii_digits" "1 < length ascii_digits"
    using True by (simp_all add: ascii_digits_def)
  ultimately show ?thesis by (simp only: nth_eq_iff_index_eq)
next
  case False
  assume one: "str_nat k = ''1''"
  from False have "str_nat k = str_nat (k div 10) @ [ascii_digits ! (k mod 10)]"
    by (simp add: str_nat.simps [of k])
  moreover have "str_nat (k div 10) \<noteq> []" using str_nat_digits by simp
  ultimately have "length (str_nat k) \<ge> 2"
    by (cases "str_nat (k div 10)") auto
  with one show ?thesis by simp
qed

lemma ext_dot:
  "\<exists>r. (if splitext_ext q = '''' then ''.bin'' else splitext_ext q) = CHR ''.'' # r"
  by (auto simp: splitext_ext_def Let_def)

lemma takeWhile_upto: "x \<notin> set xs \<Longrightarrow> takeWhile (\<lambda>c. c \<noteq> x) (xs @ x # r) = xs"
  by (induction xs) auto

lemma image_name_counter:
  assumes "image_name sheet k q = image_name sheet 1 q'"
  shows "k = 1"
proof -
  obtain r r' where r: "(if splitext_ext q = '''' then ''.bin'' else splitext_ext q) = CHR ''.'' # r"
    and r': "(if splitext_ext q' = '''' then ''.bin'' else splitext_ext q') = CHR ''.'' # r'"
    using ext_dot by metis
  have one: "str_nat 1 = ''1''"
    by (simp add: str_nat.simps ascii_digits_def)
  from assms have eq: "str_nat k @ CHR ''.'' # r = ''1'' @ CHR ''.'' # r'"
    unfolding image_name_def r r' one by simp
  have nodot: "CHR ''.'' \<notin> set (str_nat k)"
    using str_nat_digits [of k] by (auto simp: ascii_digits_def)
  have "takeWhile (\<lambda>c. c \<noteq> CHR ''.'') (str_nat k @ CHR ''.'' # r) = str_nat k"
    using nodot by (rule takeWhile_upto)
  moreover have "takeWhile (\<lambda>c. c \<noteq> CHR ''.'') (''1'' @ CHR ''.'' # r') = ''1''"
    by simp
  ultimately have "str_nat k = ''1''" using eq by simp
  then show ?thesis by (rule str_nat_one)
qed

lemma re_sub_runs_set: "set (re_sub_runs keep rep b s) \<subseteq> {c. keep c} \<union> set rep"
  by (induction s arbitrary: b) auto

lemma image_name_no_slash: "\<not> startswith ''/'' (image_name sheet k q)"
proof -
  have "set (safe_sheet sheet)
          \<subseteq> {c. c \<in> set (ascii_upper @ ascii_lower @ ascii_digits @ ''_-'')} \<union> set ''_''"
    unfolding safe_sheet_def by (rule re_sub_runs_set)
  then have "CHR ''/'' \<notin> set (safe_sheet sheet)"
    by (auto simp: ascii_upper_def ascii_lower_def ascii_digits_def)
  then show ?thesis
    by (cases "safe_sheet sheet") (auto simp: image_name_def startswith_def)
qed

lemma posix_join_inject:
  "\<not> startswith ''/'' n \<Longrightarrow> \<not> startswith ''/'' n' \<Longrightarrow> posix_join d n = posix_join d n' \<Longrightarrow> n = n'"
  by (auto simp: posix_join_def split: if_splits)

lemma image_path_counter:
  "posix_join d (image_name sheet k q) = posix_join d (image_name sheet 1 q') \<Longrightarrow> k = 1"
  using posix_join_inject [OF image_name_no_slash image_name_no_slash] image_name_counter
  by blast

lemma anchor_step_cases:
  "(\<exists>pos q src. zipf q = Some src
       \<and> anchor_step zipf rels base_dir cwd images_dir sheet st a
           = save_image cwd images_dir sheet pos q src st)
   \<or> (files (anchor_step zipf rels base_dir cwd images_dir sheet st a) = files st
       \<and> image_counter (anchor_step zipf rels base_dir cwd images_dir sheet st a) = image_counter st
       \<and> images (anchor_step zipf rels base_dir cwd images_dir sheet st a) = images st)"
proof (cases "find_elem ''xdr:pic'' a")
  case None
  then have "files (anchor_step zipf rels base_dir cwd images_dir sheet st a) = files st
       \<and> image_counter (anchor_step zipf rels base_dir cwd images_dir sheet st a) = image_counter st
       \<and> images (anchor_step zipf rels base_dir cwd images_dir sheet st a) = images st"
    by (simp add: anchor_step_def Let_def style_refs_concat del: style_refs.simps
          split: option.splits)
  then show ?thesis ..
next
  case (Some pic)
  then show ?thesis
    by (auto simp: anchor_step_def Let_def split: option.splits)
qed

lemma first_image_ok_save:
  assumes "first_image_ok zipf cwd images_dir sheet st" and "zipf q = Some src"
  shows "first_image_ok zipf cwd images_dir sheet (save_image cwd images_dir sheet pos q src st)"
proof (cases "images st = []")
  case True
  with assms show ?thesis
    by (simp add: first_image_ok_def save_image_name Let_def)
next
  case False
  define im where "im = hd (images st)"
  define p where "p = posix_join images_dir (image_name sheet 1 (original_part im))"
  have Suc: "Suc (image_counter st) \<noteq> 1"
    using assms(1) False by (simp add: first_image_ok_def)
  have "posix_join images_dir (image_name sheet (Suc (image_counter st)) q) \<noteq> p"
    unfolding p_def using image_path_counter Suc by blast
  with assms(1) False show ?thesis
    by (simp add: first_image_ok_def save_image_name Let_def im_def p_def)
qed

lemma first_image_ok_step:
  assumes "first_image_ok zipf cwd images_dir sheet st"
  shows "first_image_ok zipf cwd images_dir sheet
           (anchor_step zipf rels base_dir cwd images_dir sheet st a)"
  using anchor_step_cases [of zipf rels base_dir cwd images_dir sheet st a]
proof
  assume "\<exists>pos q src. zipf q = Some src
       \<and> anchor_step zipf rels base_dir cwd images_dir sheet st a
           = save_image cwd images_dir sheet pos q src st"
  then show ?thesis using first_image_ok_save [OF assms] by auto
next
  assume "files (anchor_step zipf rels base_dir cwd images_dir sheet st a) = files st
       \<and> image_counter (anchor_step zipf rels base_dir cwd images_dir sheet st a) = image_counter st
       \<and> images (anchor_step zipf rels base_dir cwd images_dir sheet st a) = images st"
  with assms show ?thesis by (simp add: first_image_ok_def)
qed

lemma first_image_ok_foldl:
  "first_image_ok zipf cwd images_dir sheet st \<Longrightarrow>
   first_image_ok zipf cwd images_dir sheet
     (foldl (anchor_step zipf rels base_dir cwd images_dir sheet) st anchors)"
  by (induction anchors arbitrary: st) (simp_all add: first_image_ok_step)

lemma extract_first_image:
  assumes "extract_images_and_shapes zipf d cwd images_dir sheet fs0 = Inr (fs1, ims, shs, refs)"
      and "ims \<noteq> []"
  shows "sheet_name (hd ims) = sheet"
    and "image_filename (hd ims)
           = relpath cwd (posix_join images_dir (image_name sheet 1 (original_part (hd ims))))
               (dirname images_dir)"
    and "zipf (original_part (hd ims)) \<noteq> None"
    and "fs1 (posix_join images_dir (image_name sheet 1 (original_part (hd ims))))
           = map_option part_data (zipf (original_part (hd ims)))"
proof -
  from assms(1) obtain root rels where l: "load_xml zipf d = Inr root"
    and r: "read_rels zipf d = Inr rels"
    by (auto simp: extract_images_and_shapes_def split: sum.splits)
  define st where "st = foldl (anchor_step zipf rels (dirname d) cwd images_dir sheet)
                         \<lparr>files = fs0, image_counter = 0, images = [], shapes = [],
                          smartart_refs = []\<rparr> (iter_anchors root)"
  have res: "fs1 = files st" "ims = images st"
    using assms(1) by (simp_all add: extract_unfold [OF l r] st_def Let_def)
  have "first_image_ok zipf cwd images_dir sheet
          \<lparr>files = fs0, image_counter = 0, images = [], shapes = [], smartart_refs = []\<rparr>"
    by (simp add: first_image_ok_def)
  then have "first_image_ok zipf cwd images_dir sheet st"
    unfolding st_def by (rule first_image_ok_foldl)
  with assms(2) res show "sheet_name (hd ims) = sheet"
    and "image_filename (hd ims)
           = relpath cwd (posix_join images_dir (image_name sheet 1 (original_part (hd ims))))
               (dirname images_dir)"
    and "zipf (original_part (hd ims)) \<noteq> None"
    and "fs1 (posix_join images_dir (image_name sheet 1 (original_part (hd ims))))
           = map_option part_data (zipf (original_part (hd ims)))"
    by (simp_all add: first_image_ok_def Let_def)
qed

lemma extract_one_picture:
  assumes "load_xml zipf drawing_path = Inr drawing_root"
      and "read_rels zipf drawing_path = Inr rels"
      and "findall ''xdr:twoCellAnchor'' drawing_root = [a]"
      and "findall ''xdr:oneCellAnchor'' drawing_root = []"
      and "find_elem ''xdr:pic'' a = Some pic"
      and "find_desc ''a:blip'' pic = Some blip"
      and "attrib_get blip ''r:embed'' = Some rid"
      and "rid \<noteq> ''''"
      and "dict_get rels rid = Some rel"
      and "normalize_rel_target (dirname drawing_path) (rel_Target rel) = part_in_zip"
      and "zipf part_in_zip = Some src"
  shows "extract_images_and_shapes zipf drawing_path cwd images_dir sheet fs0
           = Inr (fs0(posix_join images_dir (image_name sheet 1 part_in_zip) \<mapsto> part_data src),
                  [\<lparr>sheet_name = sheet,
                    image_filename =
                      relpath cwd (posix_join images_dir (image_name sheet 1 part_in_zip))
                        (dirname images_dir),
                    original_part = part_in_zip,
                    anchor = extract_anchor a\<rparr>],
                  [], [])"
proof -
  have anchors: "iter_anchors drawing_root = [a]"
    using assms(3,4) by (simp add: iter_anchors_def)
  show ?thesis
    by (simp add: extract_unfold [OF assms(1,2)] anchors
          anchor_step_picture [where zipf = zipf and part_in_zip = part_in_zip, OF assms(5-11)]
          save_image_name)
qed

text \<open>
  Claim C10, as amended.  When the relationships of one worksheet name two drawings and
  each drawing yields at least one image, the images of both drawings stay in the sheet's
  list and in the workbook's list, and the first image of each drawing is saved with the
  counter 1, under \<open><sanitized sheet name>_img_1\<close> and the extension of its own source
  part.  When the two source parts have the same extension, the two names are the same:
  the two entries share one \<open>image_filename\<close>, and the file, which held the bytes of the
  first drawing's image after the first drawing, holds those of the second drawing's image
  in the end.
\<close>

theorem two_drawings_first_images:
  assumes "endswith ''/drawing'' (rel_Type rel1)"
      and "endswith ''/drawing'' (rel_Type rel2)"
      and "zipf (drawing_part_of sheet_part rel1) \<noteq> None"
      and "zipf (drawing_part_of sheet_part rel2) \<noteq> None"
      and "extract_images_and_shapes zipf (drawing_part_of sheet_part rel1) cwd images_dir sheet fs0
             = Inr (fs1, ims1, shs1, refs1)"
      and "extract_images_and_shapes zipf (drawing_part_of sheet_part rel2) cwd images_dir sheet fs1
             = Inr (fs2, ims2, shs2, refs2)"
      and "ims1 \<noteq> []"
      and "ims2 \<noteq> []"
  shows "(\<exists>entry' res'.
            drawing_loop zipf py cwd images_dir sheet sheet_part [(id1, rel1), (id2, rel2)]
              (fs0, entry, res) = (fs2, Inr (entry', res'))
            \<and> se_images entry' = se_images entry @ ims1 @ ims2
            \<and> r_images res' = r_images res @ ims1 @ ims2)
         \<and> image_filename (hd ims1)
             = relpath cwd (posix_join images_dir (image_name sheet 1 (original_part (hd ims1))))
                 (dirname images_dir)
         \<and> image_filename (hd ims2)
             = relpath cwd (posix_join images_dir (image_name sheet 1 (original_part (hd ims2))))
                 (dirname images_dir)
         \<and> zipf (original_part (hd ims1)) \<noteq> None
         \<and> zipf (original_part (hd ims2)) \<noteq> None
         \<and> fs1 (posix_join images_dir (image_name sheet 1 (original_part (hd ims1))))
             = map_option part_data (zipf (original_part (hd ims1)))
         \<and> (splitext_ext (original_part (hd ims1)) = splitext_ext (original_part (hd ims2))
              \<longrightarrow> image_filename (hd ims1) = image_filename (hd ims2)
                  \<and> fs2 (posix_join images_dir (image_name sheet 1 (original_part (hd ims1))))
                      = map_option part_data (zipf (original_part (hd ims2))))"
proof -
  note one = extract_first_image [OF assms(5) assms(7)]
  note two = extract_first_image [OF assms(6) assms(8)]
  have d1: "drawing_part_of sheet_part rel1 \<in> dom zipf"
    and d2: "drawing_part_of sheet_part rel2 \<in> dom zipf"
    using assms(3,4) by (simp_all add: domIff)
  have loop: "\<exists>entry' res'.
            drawing_loop zipf py cwd images_dir sheet sheet_part [(id1, rel1), (id2, rel2)]
              (fs0, entry, res) = (fs2, Inr (entry', res'))
            \<and> se_images entry' = se_images entry @ ims1 @ ims2
            \<and> r_images res' = r_images res @ ims1 @ ims2"
    using assms(1,2) d1 d2
    by (simp add: Let_def assms(5,6) flip: drawing_part_of_def)
  have same: "image_filename (hd ims1) = image_filename (hd ims2)
                \<and> fs2 (posix_join images_dir (image_name sheet 1 (original_part (hd ims1))))
                    = map_option part_data (zipf (original_part (hd ims2)))"
    if "splitext_ext (original_part (hd ims1)) = splitext_ext (original_part (hd ims2))"
  proof -
    from that have "image_name sheet 1 (original_part (hd ims1))
                      = image_name sheet 1 (original_part (hd ims2))"
      by (simp add: image_name_def)
    with one(2) two(2,4) show ?thesis by simp
  qed
  from loop one(2,3,4) two(2,3) same show ?thesis by blast
qed

lemma two_drawings_first:
  "load_xml (two_drawings_zip ''image2.png'') ''xl/drawings/drawing1.xml''
     = Inr (Elem ''xdr:wsDr'' [] None [picture_anchor ''rId1''])"
  "read_rels (two_drawings_zip ''image2.png'') ''xl/drawings/drawing1.xml''
     = Inr [(''rId1'',
             \<lparr>rel_Type = ''http://schemas.openxmlformats.org/officeDocument/2006/relationships/image'',
              rel_Target = ''../media/image1.png''\<rparr>)]"
  "findall ''xdr:twoCellAnchor'' (Elem ''xdr:wsDr'' [] None [picture_anchor ''rId1''])
     = [picture_anchor ''rId1'']"
  "findall ''xdr:oneCellAnchor'' (Elem ''xdr:wsDr'' [] None [picture_anchor ''rId1'']) = []"
  "find_elem ''xdr:pic'' (picture_anchor ''rId1'')
     = Some (Elem ''xdr:pic'' [] None
               [Elem ''xdr:blipFill'' [] None [Elem ''a:blip'' [(''r:embed'', ''rId1'')] None []]])"
  "find_desc ''a:blip''
     (Elem ''xdr:pic'' [] None
        [Elem ''xdr:blipFill'' [] None [Elem ''a:blip'' [(''r:embed'', ''rId1'')] None []]])
     = Some (Elem ''a:blip'' [(''r:embed'', ''rId1'')] None [])"
  "attrib_get (Elem ''a:blip'' [(''r:embed'', ''rId1'')] None []) ''r:embed'' = Some ''rId1''"
  "''rId1'' \<noteq> ''''"
  "dict_get [(''rId1'',
             \<lparr>rel_Type = ''http://schemas.openxmlformats.org/officeDocument/2006/relationships/image'',
              rel_Target = ''../media/image1.png''\<rparr>)] ''rId1''
     = Some \<lparr>rel_Type = ''http://schemas.openxmlformats.org/officeDocument/2006/relationships/image'',
              rel_Target = ''../media/image1.png''\<rparr>"
  "normalize_rel_target (dirname ''xl/drawings/drawing1.xml'')
     (rel_Target \<lparr>rel_Type = ''http://schemas.openxmlformats.org/officeDocument/2006/relationships/image'',
              rel_Target = ''../media/image1.png''\<rparr>) = ''xl/media/image1.png''"
  "two_drawings_zip ''image2.png'' ''xl/media/image1.png'' = Some (Part ''PNG bytes of image1'' None)"
  by code_simp+

lemma two_drawings_second:
  "load_xml (two_drawings_zip ''image2.png'') ''xl/drawings/drawing2.xml''
     = Inr (Elem ''xdr:wsDr'' [] None [picture_anchor ''rId1''])"
  "read_rels (two_drawings_zip ''image2.png'') ''xl/drawings/drawing2.xml''
     = Inr [(''rId1'',
             \<lparr>rel_Type = ''http://schemas.openxmlformats.org/officeDocument/2006/relationships/image'',
              rel_Target = ''../media/image2.png''\<rparr>)]"
  "findall ''xdr:twoCellAnchor'' (Elem ''xdr:wsDr'' [] None [picture_anchor ''rId1''])
     = [picture_anchor ''rId1'']"
  "findall ''xdr:oneCellAnchor'' (Elem ''xdr:wsDr'' [] None [picture_anchor ''rId1'']) = []"
  "find_elem ''xdr:pic'' (picture_anchor ''rId1'')
     = Some (Elem ''xdr:pic'' [] None
               [Elem ''xdr:blipFill'' [] None [Elem ''a:blip'' [(''r:embed'', ''rId1'')] None []]])"
  "find_desc ''a:blip''
     (Elem ''xdr:pic'' [] None
        [Elem ''xdr:blipFill'' [] None [Elem ''a:blip'' [(''r:embed'', ''rId1'')] None []]])
     = Some (Elem ''a:blip'' [(''r:embed'', ''rId1'')] None [])"
  "attrib_get (Elem ''a:blip'' [(''r:embed'', ''rId1'')] None []) ''r:embed'' = Some ''rId1''"
  "''rId1'' \<noteq> ''''"
  "dict_get [(''rId1'',
             \<lparr>rel_Type = ''http://schemas.openxmlformats.org/officeDocument/2006/relationships/image'',
              rel_Target = ''../media/image2.png''\<rparr>)] ''rId1''
     = Some \<lparr>rel_Type = ''http://schemas.openxmlformats.org/officeDocument/2006/relationships/image'',
              rel_Target = ''../media/image2.png''\<rparr>"
  "normalize_rel_target (dirname ''xl/drawings/drawing2.xml'')
     (rel_Target \<lparr>rel_Type = ''http://schemas.openxmlformats.org/officeDocument/2006/relationships/image'',
              rel_Target = ''../media/image2.png''\<rparr>) = ''xl/media/image2.png''"
  "two_drawings_zip ''image2.png'' ''xl/media/image2.png'' = Some (Part ''bytes of image2'' None)"
  by code_simp+

lemma two_drawings_values:
  "drawing_part_of ''xl/worksheets/sheet1.xml'' (drawing_rel ''../drawings/drawing1.xml'')
     = ''xl/drawings/drawing1.xml''"
  "drawing_part_of ''xl/worksheets/sheet1.xml'' (drawing_rel ''../drawings/drawing2.xml'')
     = ''xl/drawings/drawing2.xml''"
  "endswith ''/drawing'' (rel_Type (drawing_rel ''../drawings/drawing1.xml''))"
  "endswith ''/drawing'' (rel_Type (drawing_rel ''../drawings/drawing2.xml''))"
  "two_drawings_zip ''image2.png'' ''xl/drawings/drawing1.xml'' \<noteq> None"
  "two_drawings_zip ''image2.png'' ''xl/drawings/drawing2.xml'' \<noteq> None"
  "image_name ''Sales'' 1 ''xl/media/image1.png'' = ''Sales_img_1.png''"
  "image_name ''Sales'' 1 ''xl/media/image2.png'' = ''Sales_img_1.png''"
  "posix_join ''/out/images'' ''Sales_img_1.png'' = ''/out/images/Sales_img_1.png''"
  "relpath ''/home/user'' ''/out/images/Sales_img_1.png'' (dirname ''/out/images'')
     = ''images/Sales_img_1.png''"
  "extract_anchor (picture_anchor ''rId1'') = \<lparr>col = 1, colOff = 0, row = 2, rowOff = 0\<rparr>"
  "splitext_ext ''xl/media/image1.png'' = splitext_ext ''xl/media/image2.png''"
  by code_simp+

text \<open>
  The theorem at the workbook whose two drawings hold \<open>image1.png\<close> and \<open>image2.png\<close>.
\<close>

theorem two_drawings_first_images_witness:
  "(\<exists>entry' res'.
      drawing_loop (two_drawings_zip ''image2.png'') (cpython311 900) ''/home/user'' ''/out/images'' ''Sales''
        ''xl/worksheets/sheet1.xml''
        [(''rId1'', drawing_rel ''../drawings/drawing1.xml''),
         (''rId2'', drawing_rel ''../drawings/drawing2.xml'')]
        (Map.empty, sales_entry, empty_result)
        = ([''/out/images/Sales_img_1.png'' \<mapsto> ''bytes of image2''], Inr (entry', res'))
      \<and> map image_filename (se_images entry')
          = [''images/Sales_img_1.png'', ''images/Sales_img_1.png'']
      \<and> map original_part (r_images res') = [''xl/media/image1.png'', ''xl/media/image2.png''])
   \<and> splitext_ext ''xl/media/image1.png'' = splitext_ext ''xl/media/image2.png''"
proof -
  let ?z = "two_drawings_zip ''image2.png''"
  let ?im1 = "\<lparr>sheet_name = ''Sales'', image_filename = ''images/Sales_img_1.png'',
                original_part = ''xl/media/image1.png'',
                anchor = \<lparr>col = 1, colOff = 0, row = 2, rowOff = 0\<rparr>\<rparr>"
  let ?im2 = "\<lparr>sheet_name = ''Sales'', image_filename = ''images/Sales_img_1.png'',
                original_part = ''xl/media/image2.png'',
                anchor = \<lparr>col = 1, colOff = 0, row = 2, rowOff = 0\<rparr>\<rparr>"
  let ?fs1 = "[''/out/images/Sales_img_1.png'' \<mapsto> ''PNG bytes of image1'']"
  let ?fs2 = "[''/out/images/Sales_img_1.png'' \<mapsto> ''bytes of image2'']"
  have e1: "extract_images_and_shapes ?z
              (drawing_part_of ''xl/worksheets/sheet1.xml'' (drawing_rel ''../drawings/drawing1.xml''))
              ''/home/user'' ''/out/images'' ''Sales'' Map.empty
              = Inr (?fs1, [?im1], [], [])"
    using extract_one_picture
            [where zipf = ?z and part_in_zip = "''xl/media/image1.png''", OF two_drawings_first,
             of "''/home/user''" "''/out/images''" "''Sales''" Map.empty]
    by (simp only: two_drawings_values part.sel)
  have e2: "extract_images_and_shapes ?z
              (drawing_part_of ''xl/worksheets/sheet1.xml'' (drawing_rel ''../drawings/drawing2.xml''))
              ''/home/user'' ''/out/images'' ''Sales'' ?fs1
              = Inr (?fs2, [?im2], [], [])"
    using extract_one_picture
            [where zipf = ?z and part_in_zip = "''xl/media/image2.png''", OF two_drawings_second,
             of "''/home/user''" "''/out/images''" "''Sales''" ?fs1]
    by (simp only: two_drawings_values part.sel fun_upd_upd)
  have z1: "?z (drawing_part_of ''xl/worksheets/sheet1.xml'' (drawing_rel ''../drawings/drawing1.xml''))
              \<noteq> None"
    and z2: "?z (drawing_part_of ''xl/worksheets/sheet1.xml'' (drawing_rel ''../drawings/drawing2.xml''))
              \<noteq> None"
    by (simp_all only: two_drawings_values not_False_eq_True)
  from two_drawings_first_images
         [OF two_drawings_values(3,4) z1 z2 e1 e2, of "cpython311 900" "''rId1''" "''rId2''"
          sales_entry empty_result]
  obtain entry' res' where
    loop: "drawing_loop ?z (cpython311 900) ''/home/user'' ''/out/images'' ''Sales''
             ''xl/worksheets/sheet1.xml''
             [(''rId1'', drawing_rel ''../drawings/drawing1.xml''),
              (''rId2'', drawing_rel ''../drawings/drawing2.xml'')]
             (Map.empty, sales_entry, empty_result) = (?fs2, Inr (entry', res'))"
    and se: "se_images entry' = se_images sales_entry @ [?im1] @ [?im2]"
    and re: "r_images res' = r_images empty_result @ [?im1] @ [?im2]"
    by blast
  from se have names: "map image_filename (se_images entry')
                  = [''images/Sales_img_1.png'', ''images/Sales_img_1.png'']"
    by (simp add: sales_entry_def)
  from re have parts: "map original_part (r_images res')
                  = [''xl/media/image1.png'', ''xl/media/image2.png'']"
    by (simp add: empty_result_def)
  show ?thesis
    by (intro conjI exI) (rule loop, rule names, rule parts, rule two_drawings_values(12))
qed

text \<open>
  The workbook whose two drawings hold \<open>image1.png\<close> and \<open>image2.jpeg\<close>: the first
  images of the two drawings are saved under different names, and the file of the first
  is not overwritten.
\<close>

theorem two_drawings_extensions_counterexample:
  "snd (process_excel ''2026-01-01T00:00:00'' (\<lambda>s. []) (two_drawings_zip ''image2.jpeg'') (cpython311 900)
          ''/home/user'' ''/in/book.xlsx'' ''/out'' Map.empty)
     = Inr \<lparr>r_text_content = [],
            r_images =
              [\<lparr>sheet_name = ''Sales'', image_filename = ''images/Sales_img_1.png'',
                original_part = ''xl/media/image1.png'',
                anchor = \<lparr>col = 1, colOff = 0, row = 2, rowOff = 0\<rparr>\<rparr>,
               \<lparr>sheet_name = ''Sales'', image_filename = ''images/Sales_img_1.jpeg'',
                original_part = ''xl/media/image2.jpeg'',
                anchor = \<lparr>col = 1, colOff = 0, row = 2, rowOff = 0\<rparr>\<rparr>],
            r_smartart = [], r_links = [],
            r_metadata = \<lparr>md_filename = ''book.xlsx'', md_created = ''2026-01-01T00:00:00'',
                          md_sheets = [''Sales'']\<rparr>,
            r_sheets =
              [\<lparr>se_name = ''Sales'', se_text_content = [],
                se_images =
                  [\<lparr>sheet_name = ''Sales'', image_filename = ''images/Sales_img_1.png'',
                    original_part = ''xl/media/image1.png'',
                    anchor = \<lparr>col = 1, colOff = 0, row = 2, rowOff = 0\<rparr>\<rparr>,
                   \<lparr>sheet_name = ''Sales'', image_filename = ''images/Sales_img_1.jpeg'',
                    original_part = ''xl/media/image2.jpeg'',
                    anchor = \<lparr>col = 1, colOff = 0, row = 2, rowOff = 0\<rparr>\<rparr>],
                se_shapes_text = [], se_smartart = [],
                se_sheet_part = ''xl/worksheets/sheet1.xml''\<rparr>]\<rparr>
   \<and> fst (process_excel ''2026-01-01T00:00:00'' (\<lambda>s. []) (two_drawings_zip ''image2.jpeg'') (cpython311 900)
            ''/home/user'' ''/in/book.xlsx'' ''/out'' Map.empty) ''/out/images/Sales_img_1.png''
       = Some ''PNG bytes of image1''
   \<and> fst (process_excel ''2026-01-01T00:00:00'' (\<lambda>s. []) (two_drawings_zip ''image2.jpeg'') (cpython311 900)
            ''/home/user'' ''/in/book.xlsx'' ''/out'' Map.empty) ''/out/images/Sales_img_1.jpeg''
       = Some ''bytes of image2''"
  by code_simp

subsection \<open>Running twice\<close>

lemma map_add_twice: "(f ++ m) ++ m = f ++ m"
  by (rule ext) (simp add: map_add_def split: option.splits)

lemma save_image_files:
  "save_image cwd images_dir sheet pos q src (st\<lparr>files := f ++ files st\<rparr>)
     = (save_image cwd images_dir sheet pos q src st)
         \<lparr>files := f ++ files (save_image cwd images_dir sheet pos q src st)\<rparr>"
  by (simp add: save_image_def Let_def)

lemma anchor_step_files:
  "anchor_step zipf rels base_dir cwd images_dir sheet (st\<lparr>files := f ++ files st\<rparr>) a
     = (anchor_step zipf rels base_dir cwd images_dir sheet st a)
         \<lparr>files := f ++ files (anchor_step zipf rels base_dir cwd images_dir sheet st a)\<rparr>"
proof (cases "find_elem ''xdr:pic'' a")
  case None
  then show ?thesis
    by (simp add: anchor_step_def Let_def style_refs_concat del: style_refs.simps
          split: option.splits)
next
  case (Some pic)
  then show ?thesis
    by (simp add: anchor_step_def Let_def save_image_files split: option.splits)
qed

lemma foldl_anchor_step_files:
  "foldl (anchor_step zipf rels base_dir cwd images_dir sheet) (st\<lparr>files := f ++ files st\<rparr>) anchors
     = (foldl (anchor_step zipf rels base_dir cwd images_dir sheet) st anchors)
         \<lparr>files := f ++ files (foldl (anchor_step zipf rels base_dir cwd images_dir sheet) st anchors)\<rparr>"
proof (induction anchors arbitrary: st)
  case Nil
  then show ?case by simp
next
  case (Cons a anchors)
  show ?case
    by (simp only: foldl.simps anchor_step_files Cons.IH)
qed

lemma extract_files:
  "extract_images_and_shapes zipf d cwd images_dir sheet (f ++ g)
     = (case extract_images_and_shapes zipf d cwd images_dir sheet g of
          Inl e \<Rightarrow> Inl e
        | Inr (g', ims, shs, refs) \<Rightarrow> Inr (f ++ g', ims, shs, refs))"
proof -
  have init: "\<lparr>files = f ++ g, image_counter = 0, images = [], shapes = [], smartart_refs = []\<rparr>
      = \<lparr>files = g, image_counter = 0, images = [], shapes = [], smartart_refs = []\<rparr>
          \<lparr>files := f ++ files \<lparr>files = g, image_counter = 0, images = [], shapes = [],
                                 smartart_refs = []\<rparr>\<rparr>"
    by simp
  show ?thesis
    unfolding extract_images_and_shapes_def init foldl_anchor_step_files
    by (simp add: Let_def split: sum.splits)
qed

lemma drawing_loop_files:
  "drawing_loop zipf py cwd images_dir sheet sheet_part s_rels (f ++ g, entry, res)
     = (case drawing_loop zipf py cwd images_dir sheet sheet_part s_rels (g, entry, res) of
          (g', r) \<Rightarrow> (f ++ g', r))"
proof (induction s_rels arbitrary: g entry res)
  case Nil
  then show ?case by simp
next
  case (Cons rel s_rels)
  obtain rel_id r where rel: "rel = (rel_id, r)" by (cases rel)
  show ?case
    unfolding rel
    by (simp add: Let_def extract_files Cons.IH split: sum.splits prod.splits)
qed

lemma sheet_loop_files:
  "sheet_loop zipf py cwd images_dir cells sheets (f ++ g, res)
     = (case sheet_loop zipf py cwd images_dir cells sheets (g, res) of
          (g', r) \<Rightarrow> (f ++ g', r))"
proof (induction sheets arbitrary: g res)
  case Nil
  then show ?case by simp
next
  case (Cons sh sheets)
  obtain name part where sh: "sh = (name, part)" by (cases sh)
  show ?case
    unfolding sh
    by (simp add: Let_def drawing_loop_files Cons.IH split: sum.splits prod.splits)
qed

lemma process_excel_files:
  "process_excel created cells zipf py cwd input_path output_dir (f ++ g)
     = (case process_excel created cells zipf py cwd input_path output_dir g of
          (g', r) \<Rightarrow> (f ++ g', r))"
  by (simp add: process_excel_def Let_def sheet_loop_files)

lemma drawing_loop_metadata:
  "drawing_loop zipf py cwd images_dir sheet sheet_part s_rels
       (fs0, entry, res\<lparr>r_metadata := md\<rparr>)
     = (case drawing_loop zipf py cwd images_dir sheet sheet_part s_rels (fs0, entry, res) of
          (fs1, Inl e) \<Rightarrow> (fs1, Inl e)
        | (fs1, Inr (entry1, res1)) \<Rightarrow> (fs1, Inr (entry1, res1\<lparr>r_metadata := md\<rparr>)))"
proof (induction s_rels arbitrary: fs0 entry res)
  case Nil
  then show ?case by simp
next
  case (Cons rel s_rels)
  obtain rel_id r where rel: "rel = (rel_id, r)" by (cases rel)
  have upd: "res\<lparr>r_metadata := md, r_images := ims, r_smartart := sm\<rparr>
               = res\<lparr>r_images := ims, r_smartart := sm\<rparr>\<lparr>r_metadata := md\<rparr>" for ims sm
    by simp
  show ?case
    unfolding rel
    by (simp add: Let_def upd Cons.IH split: sum.splits prod.splits del: result.update_convs)
qed

lemma sheet_loop_metadata:
  "sheet_loop zipf py cwd images_dir cells sheets (fs0, res\<lparr>r_metadata := md\<rparr>)
     = (case sheet_loop zipf py cwd images_dir cells sheets (fs0, res) of
          (fs1, Inl e) \<Rightarrow> (fs1, Inl e)
        | (fs1, Inr res1) \<Rightarrow> (fs1, Inr (res1\<lparr>r_metadata := md\<rparr>)))"
proof (induction sheets arbitrary: fs0 res)
  case Nil
  then show ?case by simp
next
  case (Cons sh sheets)
  obtain name part where sh: "sh = (name, part)" by (cases sh)
  have upd: "res1\<lparr>r_metadata := md, r_sheets := ss\<rparr> = res1\<lparr>r_sheets := ss\<rparr>\<lparr>r_metadata := md\<rparr>"
    for res1 :: result and ss
    by simp
  show ?case
    unfolding sh
    by (simp add: Let_def drawing_loop_metadata upd Cons.IH split: sum.splits prod.splits
          del: result.update_convs)
qed

lemma process_excel_created:
  "process_excel created2 cells zipf py cwd input_path output_dir g
     = (case process_excel created1 cells zipf py cwd input_path output_dir g of
          (g', Inl e) \<Rightarrow> (g', Inl e)
        | (g', Inr r) \<Rightarrow>
            (g', Inr (r\<lparr>r_metadata := \<lparr>md_filename = basename input_path,
                                         md_created = created2,
                                         md_sheets = map fst (workbook_sheets zipf)\<rparr>\<rparr>)))"
proof -
  let ?md = "\<lambda>c. \<lparr>md_filename = basename input_path, md_created = c,
                   md_sheets = map fst (workbook_sheets zipf)\<rparr>"
  let ?res = "\<lambda>c. \<lparr>r_text_content = [], r_images = [], r_smartart = [], r_links = [],
                    r_metadata = ?md c, r_sheets = []\<rparr>"
  have "?res created2 = (?res created1)\<lparr>r_metadata := ?md created2\<rparr>"
    by simp
  then have "sheet_loop zipf py cwd (posix_join output_dir ''images'') cells
               (workbook_sheets zipf) (g, ?res created2)
           = (case sheet_loop zipf py cwd (posix_join output_dir ''images'') cells
                     (workbook_sheets zipf) (g, ?res created1) of
                (fs1, Inl e) \<Rightarrow> (fs1, Inl e)
              | (fs1, Inr res1) \<Rightarrow> (fs1, Inr (res1\<lparr>r_metadata := ?md created2\<rparr>)))"
    by (simp only: sheet_loop_metadata)
  then show ?thesis
    by (simp add: process_excel_def Let_def)
qed

lemma process_excel_metadata:
  assumes "process_excel created cells zipf py cwd input_path output_dir g = (g', Inr r)"
  shows "r_metadata r = \<lparr>md_filename = basename input_path, md_created = created,
                          md_sheets = map fst (workbook_sheets zipf)\<rparr>"
proof -
  let ?md = "\<lparr>md_filename = basename input_path, md_created = created,
               md_sheets = map fst (workbook_sheets zipf)\<rparr>"
  from process_excel_created [of created cells zipf py cwd input_path output_dir g created]
  have "r = r\<lparr>r_metadata := ?md\<rparr>"
    by (simp add: assms)
  then have "r_metadata r = r_metadata (r\<lparr>r_metadata := ?md\<rparr>)"
    by simp
  then show ?thesis by simp
qed

lemma rstrip_append:
  assumes "\<exists>c \<in> set b. \<not> p c"
  shows "rstrip p (a @ b) = a @ rstrip p b"
proof -
  from assms have "\<exists>c \<in> set (rev b). \<not> p c" by simp
  then have "dropWhile p (rev b @ rev a) = dropWhile p (rev b) @ rev a"
    by (metis dropWhile_append1)
  then show ?thesis by (simp add: rstrip_def)
qed

lemma generate_markdown_split:
  "\<exists>tail. \<forall>t. generate_markdown t r
      = ''# Excel to Markdown Conversion\<newline>Generated on: '' @ t @ tail"
proof -
  define rest where "rest =
     map (\<lambda>sheet. ''- ['' @ se_name sheet @ ''](#'' @ slug (se_name sheet) @ '')'') (r_sheets r)
       @ [''''] @ concat (map sheet_lines (r_sheets r))"
  define body where "body = ''\<newline>'' @ ''\<newline>'' @ join_with ''\<newline>'' (''## Table of Contents'' # rest)"
  have lines: "markdown_lines t r
      = ''# Excel to Markdown Conversion'' # (''Generated on: '' @ t) # '''' # ''## Table of Contents'' # rest"
    for t
    by (simp add: markdown_lines_def rest_def)
  have joined: "join_with ''\<newline>'' (markdown_lines t r)
      = (''# Excel to Markdown Conversion\<newline>Generated on: '' @ t) @ body" for t
    unfolding lines by (simp add: body_def)
  have "CHR ''#'' \<in> set body"
    by (simp add: body_def join_with_Cons)
  moreover have "\<not> py_isspace CHR ''#''"
    by (simp add: py_isspace_def)
  ultimately have ns: "\<exists>c \<in> set body. \<not> py_isspace c" by blast
  have "generate_markdown t r
      = ''# Excel to Markdown Conversion\<newline>Generated on: '' @ t
          @ (rstrip py_isspace body @ ''\<newline>'')" for t
    unfolding generate_markdown_def joined rstrip_append [OF ns] by simp
  then show ?thesis by blast
qed

lemma generate_markdown_metadata:
  "generate_markdown t (r\<lparr>r_metadata := md\<rparr>) = generate_markdown t r"
  by (simp add: generate_markdown_def markdown_lines_def)

text \<open>
  Claim C5, as amended.  When a run has returned, a second run on the same archive, with
  the same cell texts and the same output directory, starting from the files the first run
  left, leaves the files as they are and returns the same document except for the
  \<open>created\<close> field of its metadata, which holds the second reading of the clock.  The
  Markdown of the two documents is the same text except for the reading of the clock in
  its second line, \<open>Generated on: ...\<close>.
\<close>

theorem rerun_same_output:
  assumes "process_excel created1 cells zipf py cwd input_path output_dir fs0 = (fs1, Inr r1)"
  shows "process_excel created2 cells zipf py cwd input_path output_dir fs1
           = (fs1, Inr (r1\<lparr>r_metadata := (r_metadata r1)\<lparr>md_created := created2\<rparr>\<rparr>))
         \<and> (\<exists>tail.
               generate_markdown now1 r1
                 = ''# Excel to Markdown Conversion\<newline>Generated on: '' @ now1 @ tail
               \<and> generate_markdown now2
                     (r1\<lparr>r_metadata := (r_metadata r1)\<lparr>md_created := created2\<rparr>\<rparr>)
                 = ''# Excel to Markdown Conversion\<newline>Generated on: '' @ now2 @ tail)"
proof -
  let ?P = "\<lambda>c g. process_excel c cells zipf py cwd input_path output_dir g"
  obtain m x where empty: "?P created1 Map.empty = (m, x)" by (cases "?P created1 Map.empty")
  from process_excel_files [of created1 cells zipf py cwd input_path output_dir fs0 Map.empty]
  have "?P created1 fs0 = (fs0 ++ m, x)"
    by (simp add: empty)
  with assms have fs1: "fs1 = fs0 ++ m" and x: "x = Inr r1" by simp_all
  have md: "r_metadata r1 = \<lparr>md_filename = basename input_path, md_created = created1,
                              md_sheets = map fst (workbook_sheets zipf)\<rparr>"
    using assms by (rule process_excel_metadata)
  have "?P created2 Map.empty
          = (m, Inr (r1\<lparr>r_metadata := \<lparr>md_filename = basename input_path,
                                           md_created = created2,
                                           md_sheets = map fst (workbook_sheets zipf)\<rparr>\<rparr>))"
    using process_excel_created [of created2 cells zipf py cwd input_path output_dir Map.empty
        created1]
    by (simp add: empty x)
  then have second: "?P created2 Map.empty
          = (m, Inr (r1\<lparr>r_metadata := (r_metadata r1)\<lparr>md_created := created2\<rparr>\<rparr>))"
    by (simp add: md)
  from process_excel_files [of created2 cells zipf py cwd input_path output_dir fs1 Map.empty]
  have run: "?P created2 fs1
          = (fs1, Inr (r1\<lparr>r_metadata := (r_metadata r1)\<lparr>md_created := created2\<rparr>\<rparr>))"
    by (simp add: second fs1 map_add_twice)
  from generate_markdown_split [of r1] obtain tail where
    tail: "\<forall>t. generate_markdown t r1
              = ''# Excel to Markdown Conversion\<newline>Generated on: '' @ t @ tail"
    by blast
  have "generate_markdown now1 r1
                 = ''# Excel to Markdown Conversion\<newline>Generated on: '' @ now1 @ tail
               \<and> generate_markdown now2
                     (r1\<lparr>r_metadata := (r_metadata r1)\<lparr>md_created := created2\<rparr>\<rparr>)
                 = ''# Excel to Markdown Conversion\<newline>Generated on: '' @ now2 @ tail"
    using tail by (simp only: generate_markdown_metadata)
  then show ?thesis using run by blast
qed

lemma two_png_run:
  "snd (process_excel ''2026-01-01T00:00:00'' (\<lambda>s. []) (two_drawings_zip ''image2.png'') (cpython311 900)
          ''/home/user'' ''/in/book.xlsx'' ''/out'' Map.empty)
     = Inr (two_png_result ''2026-01-01T00:00:00'')"
  by code_simp

text \<open>The theorem at the workbook with \<open>image1.png\<close> and \<open>image2.png\<close>.\<close>

theorem rerun_same_output_witness:
  "snd (process_excel ''2026-01-01T00:00:00'' (\<lambda>s. []) (two_drawings_zip ''image2.png'') (cpython311 900)
          ''/home/user'' ''/in/book.xlsx'' ''/out'' Map.empty)
     = Inr (two_png_result ''2026-01-01T00:00:00'')
   \<and> process_excel ''2026-01-01T00:00:07'' (\<lambda>s. []) (two_drawings_zip ''image2.png'') (cpython311 900)
         ''/home/user'' ''/in/book.xlsx'' ''/out''
         (fst (process_excel ''2026-01-01T00:00:00'' (\<lambda>s. []) (two_drawings_zip ''image2.png'')
                 (cpython311 900) ''/home/user'' ''/in/book.xlsx'' ''/out'' Map.empty))
       = (fst (process_excel ''2026-01-01T00:00:00'' (\<lambda>s. []) (two_drawings_zip ''image2.png'')
                 (cpython311 900) ''/home/user'' ''/in/book.xlsx'' ''/out'' Map.empty),
          Inr (two_png_result ''2026-01-01T00:00:07''))
   \<and> (\<exists>tail.
         generate_markdown ''2026-01-01 00:00:00'' (two_png_result ''2026-01-01T00:00:00'')
           = ''# Excel to Markdown Conversion\<newline>Generated on: '' @ ''2026-01-01 00:00:00'' @ tail
         \<and> generate_markdown ''2026-01-01 00:00:07'' (two_png_result ''2026-01-01T00:00:07'')
           = ''# Excel to Markdown Conversion\<newline>Generated on: '' @ ''2026-01-01 00:00:07'' @ tail)"
proof -
  let ?run = "process_excel ''2026-01-01T00:00:00'' (\<lambda>s. []) (two_drawings_zip ''image2.png'')
                (cpython311 900) ''/home/user'' ''/in/book.xlsx'' ''/out'' Map.empty"
  have first: "?run = (fst ?run, Inr (two_png_result ''2026-01-01T00:00:00''))"
    by (simp add: prod_eq_iff two_png_run)
  have upd: "(two_png_result ''2026-01-01T00:00:00'')
               \<lparr>r_metadata := (r_metadata (two_png_result ''2026-01-01T00:00:00''))
                                 \<lparr>md_created := ''2026-01-01T00:00:07''\<rparr>\<rparr>
             = two_png_result ''2026-01-01T00:00:07''"
    by (simp add: two_png_result_def)
  from rerun_same_output [OF first, of "''2026-01-01T00:00:07''" "''2026-01-01 00:00:00''"
      "''2026-01-01 00:00:07''"]
  show ?thesis
    unfolding upd using two_png_run by blast
qed

text \<open>
  The same workbook, extracted at two readings of the clock: the documents differ in
  \<open>created\<close> only, and the two Markdown texts are not identical.
\<close>

theorem rerun_markdown_counterexample:
  "snd (process_excel ''2026-01-01T00:00:00'' (\<lambda>s. []) (two_drawings_zip ''image2.png'') (cpython311 900)
          ''/home/user'' ''/in/book.xlsx'' ''/out'' Map.empty)
     = Inr (two_png_result ''2026-01-01T00:00:00'')
   \<and> snd (process_excel ''2026-01-01T00:00:07'' (\<lambda>s. []) (two_drawings_zip ''image2.png'') (cpython311 900)
          ''/home/user'' ''/in/book.xlsx'' ''/out''
          (fst (process_excel ''2026-01-01T00:00:00'' (\<lambda>s. []) (two_drawings_zip ''image2.png'')
                  (cpython311 900) ''/home/user'' ''/in/book.xlsx'' ''/out'' Map.empty)))
     = Inr (two_png_result ''2026-01-01T00:00:07'')
   \<and> generate_markdown ''2026-01-01 00:00:00'' (two_png_result ''2026-01-01T00:00:00'')
       = ''# Excel to Markdown Conversion\<newline>Generated on: 2026-01-01 00:00:00\<newline>\<newline>## Table of Contents\<newline>- [Sales](#sales)\<newline>\<newline>## Sales\<newline>\<newline>### Images\<newline>![Image at r2 c1](images/Sales_img_1.png)\<newline>![Image at r2 c1](images/Sales_img_1.png)\<newline>''
   \<and> generate_markdown ''2026-01-01 00:00:00'' (two_png_result ''2026-01-01T00:00:00'')
       \<noteq> generate_markdown ''2026-01-01 00:00:07'' (two_png_result ''2026-01-01T00:00:07'')"
  by code_simp

text \<open>
  Claim C4, which the code does not meet: a malformed drawing part should cost that
  drawing only.  At a workbook whose sheet names two drawings, the first of them
  malformed, \<open>process_excel\<close> ends with the parse error, returns no document, and the
  picture of the second drawing is never written.  The call of
  \<open>extract_images_and_shapes\<close> has no \<open>try\<close> around it, as the call of
  \<open>build_smartart_hierarchy\<close> next to it has.
\<close>

theorem malformed_drawing_aborts_run:
  "load_xml broken_drawing_zip ''xl/drawings/drawing1.xml'' = Inl ParseError
   \<and> snd (process_excel ''2026-01-01T00:00:00'' (\<lambda>s. []) broken_drawing_zip (cpython311 900)
            ''/home/user'' ''/in/book.xlsx'' ''/out'' Map.empty)
       = Inl ParseError
   \<and> fst (process_excel ''2026-01-01T00:00:00'' (\<lambda>s. []) broken_drawing_zip (cpython311 900)
            ''/home/user'' ''/in/book.xlsx'' ''/out'' Map.empty) ''/out/images/Sales_img_1.png''
       = None"
  by code_simp

end
